theory Spec2Isabelle
  imports Complex_Main "HOL-Library.Word" "HOL-Library.AList"
begin

section \<open>Verification of danmu_api/utils/merge-util.js\<close>

text \<open>
  The source is JavaScript.  Its strings are sequences of 16-bit code units, so a string
  is a list of 16-bit words here; \<open>length\<close>, \<open>charAt\<close> and \<open>charCodeAt\<close> count code
  units as the source does.  Numbers that the source keeps integral are \<open>int\<close> or
  \<open>nat\<close>; the scores it computes by division are exact rationals (\<open>rat\<close>), that is,
  the IEEE rounding of the runtime is not part of the model.  \<open>undefined\<close>/\<open>null\<close> is
  \<open>None\<close>.  What the module imports and the sources do not hold is a parameter of the
  functions that use it: the converter \<open>simplized\<close> of zh-util.js (taken to return a
  string, so that the \<open>try\<close> around it does nothing) and, for the dates, the \<open>Date\<close> of
  the runtime.  Calls of \<open>log\<close> and the variables that only feed them are left out.
\<close>

subsection \<open>Strings of the runtime\<close>

type_synonym jchar = "16 word"
type_synonym jstring = "jchar list"

definition asc :: "string \<Rightarrow> jstring" where
  \<comment> \<open>an ASCII literal of the source, as code units\<close>
  "asc s = map (\<lambda>c. of_nat (of_char c)) s"

definition isLineTerminator :: "jchar \<Rightarrow> bool" where
  "isLineTerminator c = (c = 0x0A \<or> c = 0x0D \<or> c = 0x2028 \<or> c = 0x2029)"

definition isWhiteSpace :: "jchar \<Rightarrow> bool" where
  \<comment> \<open>the class \<open>\s\<close> of regular expressions, also what \<open>trim\<close> strips\<close>
  "isWhiteSpace c = ((0x09 \<le> c \<and> c \<le> 0x0D) \<or> c = 0x20 \<or> c = 0xA0 \<or> c = 0x1680
     \<or> (0x2000 \<le> c \<and> c \<le> 0x200A) \<or> c = 0x2028 \<or> c = 0x2029 \<or> c = 0x202F
     \<or> c = 0x205F \<or> c = 0x3000 \<or> c = 0xFEFF)"

definition isDigit :: "jchar \<Rightarrow> bool" where
  "isDigit c = (0x30 \<le> c \<and> c \<le> 0x39)"

definition trim :: "jstring \<Rightarrow> jstring" where
  "trim s = rev (dropWhile isWhiteSpace (rev (dropWhile isWhiteSpace s)))"

fun startsWith :: "jstring \<Rightarrow> jstring \<Rightarrow> bool" where
  "startsWith s [] = True"
| "startsWith [] (t # ts) = False"
| "startsWith (c # cs) (t # ts) = (c = t \<and> startsWith cs ts)"

fun strIncludes :: "jstring \<Rightarrow> jstring \<Rightarrow> bool" where
  "strIncludes [] t = (t = [])"
| "strIncludes (c # cs) t = (startsWith (c # cs) t \<or> strIncludes cs t)"

function digitsOf :: "int \<Rightarrow> jstring" where
  \<comment> \<open>the decimal digits of a number that is not negative\<close>
  "digitsOf n = (if n < 10 then [of_int (48 + n)]
                 else digitsOf (n div 10) @ [of_int (48 + n mod 10)])"
  by pat_completeness auto
termination
  by (relation "measure nat") auto

definition intToString :: "int \<Rightarrow> jstring" where
  \<comment> \<open>\<open>String(n)\<close> for an integral number below \<open>10^21\<close> in magnitude\<close>
  "intToString n = (if n < 0 then asc ''-'' @ digitsOf (- n) else digitsOf n)"

definition setAdd :: "'a list \<Rightarrow> 'a \<Rightarrow> 'a list" where
  \<comment> \<open>\<open>Set.prototype.add\<close>: a set is the list of its members in insertion order\<close>
  "setAdd acc x = (if x \<in> set acc then acc else acc @ [x])"

definition newSet :: "'a list \<Rightarrow> 'a list" where
  "newSet xs = foldl setAdd [] xs"

definition isHighSurrogate :: "jchar \<Rightarrow> bool" where
  "isHighSurrogate c = (0xD800 \<le> c \<and> c \<le> 0xDBFF)"

definition isLowSurrogate :: "jchar \<Rightarrow> bool" where
  "isLowSurrogate c = (0xDC00 \<le> c \<and> c \<le> 0xDFFF)"

fun stringIterator :: "jstring \<Rightarrow> jstring list" where
  \<comment> \<open>iterating a string yields code points: a surrogate pair is one element\<close>
  "stringIterator [] = []"
| "stringIterator [c] = [[c]]"
| "stringIterator (c # d # cs) =
     (if isHighSurrogate c \<and> isLowSurrogate d then [c, d] # stringIterator cs
      else [c] # stringIterator (d # cs))"

subsection \<open>Case mapping of the runtime\<close>

text \<open>
  \<open>String.prototype.toLowerCase\<close> maps a string by the lower-case mappings of the Unicode
  Character Database, code point by code point; the tables are those of version 14.0 of
  the database.  \<open>lowerTable\<close> holds the simple mappings of the Basic Multilingual Plane
  as entries (first, last, step, displacement); \<open>lowerPairTable\<close> those of the
  supplementary planes, by the high surrogate and the range of the low one.  U+0130 has
  a mapping to two code units, and U+03A3 becomes the final sigma U+03C2 when a cased
  letter stands before it and none after it, characters that case ignores skipped on
  both sides: \<open>casedTable\<close> holds the cased code points that case does not ignore, and
  \<open>ignorableTable\<close> the ones it ignores.
\<close>

definition lowerTable :: "(int \<times> int \<times> int \<times> int) list" where
  "lowerTable =
    [(0x41, 0x5A, 1, 0x20), (0xC0, 0xD6, 1, 0x20), (0xD8, 0xDE, 1, 0x20), (0x100, 0x12E, 2, 0x1),
     (0x130, 0x130, 1, - 0xC7), (0x132, 0x136, 2, 0x1), (0x139, 0x147, 2, 0x1),
     (0x14A, 0x176, 2, 0x1), (0x178, 0x178, 1, - 0x79), (0x179, 0x17D, 2, 0x1),
     (0x181, 0x181, 1, 0xD2), (0x182, 0x184, 2, 0x1), (0x186, 0x186, 1, 0xCE),
     (0x187, 0x187, 1, 0x1), (0x189, 0x18A, 1, 0xCD), (0x18B, 0x18B, 1, 0x1),
     (0x18E, 0x18E, 1, 0x4F), (0x18F, 0x18F, 1, 0xCA), (0x190, 0x190, 1, 0xCB),
     (0x191, 0x191, 1, 0x1), (0x193, 0x193, 1, 0xCD), (0x194, 0x194, 1, 0xCF),
     (0x196, 0x196, 1, 0xD3), (0x197, 0x197, 1, 0xD1), (0x198, 0x198, 1, 0x1),
     (0x19C, 0x19C, 1, 0xD3), (0x19D, 0x19D, 1, 0xD5), (0x19F, 0x19F, 1, 0xD6),
     (0x1A0, 0x1A4, 2, 0x1), (0x1A6, 0x1A6, 1, 0xDA), (0x1A7, 0x1A7, 1, 0x1),
     (0x1A9, 0x1A9, 1, 0xDA), (0x1AC, 0x1AC, 1, 0x1), (0x1AE, 0x1AE, 1, 0xDA),
     (0x1AF, 0x1AF, 1, 0x1), (0x1B1, 0x1B2, 1, 0xD9), (0x1B3, 0x1B5, 2, 0x1),
     (0x1B7, 0x1B7, 1, 0xDB), (0x1B8, 0x1B8, 1, 0x1), (0x1BC, 0x1BC, 1, 0x1),
     (0x1C4, 0x1C4, 1, 0x2), (0x1C5, 0x1C5, 1, 0x1), (0x1C7, 0x1C7, 1, 0x2),
     (0x1C8, 0x1C8, 1, 0x1), (0x1CA, 0x1CA, 1, 0x2), (0x1CB, 0x1DB, 2, 0x1),
     (0x1DE, 0x1EE, 2, 0x1), (0x1F1, 0x1F1, 1, 0x2), (0x1F2, 0x1F4, 2, 0x1),
     (0x1F6, 0x1F6, 1, - 0x61), (0x1F7, 0x1F7, 1, - 0x38), (0x1F8, 0x21E, 2, 0x1),
     (0x220, 0x220, 1, - 0x82), (0x222, 0x232, 2, 0x1), (0x23A, 0x23A, 1, 0x2A2B),
     (0x23B, 0x23B, 1, 0x1), (0x23D, 0x23D, 1, - 0xA3), (0x23E, 0x23E, 1, 0x2A28),
     (0x241, 0x241, 1, 0x1), (0x243, 0x243, 1, - 0xC3), (0x244, 0x244, 1, 0x45),
     (0x245, 0x245, 1, 0x47), (0x246, 0x24E, 2, 0x1), (0x370, 0x372, 2, 0x1),
     (0x376, 0x376, 1, 0x1), (0x37F, 0x37F, 1, 0x74), (0x386, 0x386, 1, 0x26),
     (0x388, 0x38A, 1, 0x25), (0x38C, 0x38C, 1, 0x40), (0x38E, 0x38F, 1, 0x3F),
     (0x391, 0x3A1, 1, 0x20), (0x3A3, 0x3AB, 1, 0x20), (0x3CF, 0x3CF, 1, 0x8),
     (0x3D8, 0x3EE, 2, 0x1), (0x3F4, 0x3F4, 1, - 0x3C), (0x3F7, 0x3F7, 1, 0x1),
     (0x3F9, 0x3F9, 1, - 0x7), (0x3FA, 0x3FA, 1, 0x1), (0x3FD, 0x3FF, 1, - 0x82),
     (0x400, 0x40F, 1, 0x50), (0x410, 0x42F, 1, 0x20), (0x460, 0x480, 2, 0x1),
     (0x48A, 0x4BE, 2, 0x1), (0x4C0, 0x4C0, 1, 0xF), (0x4C1, 0x4CD, 2, 0x1),
     (0x4D0, 0x52E, 2, 0x1), (0x531, 0x556, 1, 0x30), (0x10A0, 0x10C5, 1, 0x1C60),
     (0x10C7, 0x10C7, 1, 0x1C60), (0x10CD, 0x10CD, 1, 0x1C60), (0x13A0, 0x13EF, 1, 0x97D0),
     (0x13F0, 0x13F5, 1, 0x8), (0x1C90, 0x1CBA, 1, - 0xBC0), (0x1CBD, 0x1CBF, 1, - 0xBC0),
     (0x1E00, 0x1E94, 2, 0x1), (0x1E9E, 0x1E9E, 1, - 0x1DBF), (0x1EA0, 0x1EFE, 2, 0x1),
     (0x1F08, 0x1F0F, 1, - 0x8), (0x1F18, 0x1F1D, 1, - 0x8), (0x1F28, 0x1F2F, 1, - 0x8),
     (0x1F38, 0x1F3F, 1, - 0x8), (0x1F48, 0x1F4D, 1, - 0x8), (0x1F59, 0x1F5F, 2, - 0x8),
     (0x1F68, 0x1F6F, 1, - 0x8), (0x1F88, 0x1F8F, 1, - 0x8), (0x1F98, 0x1F9F, 1, - 0x8),
     (0x1FA8, 0x1FAF, 1, - 0x8), (0x1FB8, 0x1FB9, 1, - 0x8), (0x1FBA, 0x1FBB, 1, - 0x4A),
     (0x1FBC, 0x1FBC, 1, - 0x9), (0x1FC8, 0x1FCB, 1, - 0x56), (0x1FCC, 0x1FCC, 1, - 0x9),
     (0x1FD8, 0x1FD9, 1, - 0x8), (0x1FDA, 0x1FDB, 1, - 0x64), (0x1FE8, 0x1FE9, 1, - 0x8),
     (0x1FEA, 0x1FEB, 1, - 0x70), (0x1FEC, 0x1FEC, 1, - 0x7), (0x1FF8, 0x1FF9, 1, - 0x80),
     (0x1FFA, 0x1FFB, 1, - 0x7E), (0x1FFC, 0x1FFC, 1, - 0x9), (0x2126, 0x2126, 1, - 0x1D5D),
     (0x212A, 0x212A, 1, - 0x20BF), (0x212B, 0x212B, 1, - 0x2046), (0x2132, 0x2132, 1, 0x1C),
     (0x2160, 0x216F, 1, 0x10), (0x2183, 0x2183, 1, 0x1), (0x24B6, 0x24CF, 1, 0x1A),
     (0x2C00, 0x2C2F, 1, 0x30), (0x2C60, 0x2C60, 1, 0x1), (0x2C62, 0x2C62, 1, - 0x29F7),
     (0x2C63, 0x2C63, 1, - 0xEE6), (0x2C64, 0x2C64, 1, - 0x29E7), (0x2C67, 0x2C6B, 2, 0x1),
     (0x2C6D, 0x2C6D, 1, - 0x2A1C), (0x2C6E, 0x2C6E, 1, - 0x29FD), (0x2C6F, 0x2C6F, 1, - 0x2A1F),
     (0x2C70, 0x2C70, 1, - 0x2A1E), (0x2C72, 0x2C72, 1, 0x1), (0x2C75, 0x2C75, 1, 0x1),
     (0x2C7E, 0x2C7F, 1, - 0x2A3F), (0x2C80, 0x2CE2, 2, 0x1), (0x2CEB, 0x2CED, 2, 0x1),
     (0x2CF2, 0x2CF2, 1, 0x1), (0xA640, 0xA66C, 2, 0x1), (0xA680, 0xA69A, 2, 0x1),
     (0xA722, 0xA72E, 2, 0x1), (0xA732, 0xA76E, 2, 0x1), (0xA779, 0xA77B, 2, 0x1),
     (0xA77D, 0xA77D, 1, - 0x8A04), (0xA77E, 0xA786, 2, 0x1), (0xA78B, 0xA78B, 1, 0x1),
     (0xA78D, 0xA78D, 1, - 0xA528), (0xA790, 0xA792, 2, 0x1), (0xA796, 0xA7A8, 2, 0x1),
     (0xA7AA, 0xA7AA, 1, - 0xA544), (0xA7AB, 0xA7AB, 1, - 0xA54F), (0xA7AC, 0xA7AC, 1, - 0xA54B),
     (0xA7AD, 0xA7AD, 1, - 0xA541), (0xA7AE, 0xA7AE, 1, - 0xA544), (0xA7B0, 0xA7B0, 1, - 0xA512),
     (0xA7B1, 0xA7B1, 1, - 0xA52A), (0xA7B2, 0xA7B2, 1, - 0xA515), (0xA7B3, 0xA7B3, 1, 0x3A0),
     (0xA7B4, 0xA7C2, 2, 0x1), (0xA7C4, 0xA7C4, 1, - 0x30), (0xA7C5, 0xA7C5, 1, - 0xA543),
     (0xA7C6, 0xA7C6, 1, - 0x8A38), (0xA7C7, 0xA7C9, 2, 0x1), (0xA7D0, 0xA7D0, 1, 0x1),
     (0xA7D6, 0xA7D8, 2, 0x1), (0xA7F5, 0xA7F5, 1, 0x1), (0xFF21, 0xFF3A, 1, 0x20)]"

definition lowerPairTable :: "(jchar \<times> int \<times> int \<times> int) list" where
  "lowerPairTable =
    [(0xD801, 0xDC00, 0xDC27, 40), (0xD801, 0xDCB0, 0xDCD3, 40), (0xD801, 0xDD70, 0xDD7A, 39),
     (0xD801, 0xDD7C, 0xDD8A, 39), (0xD801, 0xDD8C, 0xDD92, 39), (0xD801, 0xDD94, 0xDD95, 39),
     (0xD803, 0xDC80, 0xDCB2, 64), (0xD806, 0xDCA0, 0xDCBF, 32), (0xD81B, 0xDE40, 0xDE5F, 32),
     (0xD83A, 0xDD00, 0xDD21, 34)]"

definition casedTable :: "(int \<times> int) list" where
  "casedTable =
    [(0x41, 0x5A), (0x61, 0x7A), (0xAA, 0xAA), (0xB5, 0xB5), (0xBA, 0xBA), (0xC0, 0xD6),
     (0xD8, 0xF6), (0xF8, 0x1BA), (0x1BC, 0x1BF), (0x1C4, 0x293), (0x295, 0x2AF), (0x370, 0x373),
     (0x376, 0x377), (0x37B, 0x37D), (0x37F, 0x37F), (0x386, 0x386), (0x388, 0x38A),
     (0x38C, 0x38C), (0x38E, 0x3A1), (0x3A3, 0x3F5), (0x3F7, 0x481), (0x48A, 0x52F),
     (0x531, 0x556), (0x560, 0x588), (0x10A0, 0x10C5), (0x10C7, 0x10C7), (0x10CD, 0x10CD),
     (0x10D0, 0x10FA), (0x10FD, 0x10FF), (0x13A0, 0x13F5), (0x13F8, 0x13FD), (0x1C80, 0x1C88),
     (0x1C90, 0x1CBA), (0x1CBD, 0x1CBF), (0x1D00, 0x1D2B), (0x1D6B, 0x1D77), (0x1D79, 0x1D9A),
     (0x1E00, 0x1F15), (0x1F18, 0x1F1D), (0x1F20, 0x1F45), (0x1F48, 0x1F4D), (0x1F50, 0x1F57),
     (0x1F59, 0x1F59), (0x1F5B, 0x1F5B), (0x1F5D, 0x1F5D), (0x1F5F, 0x1F7D), (0x1F80, 0x1FB4),
     (0x1FB6, 0x1FBC), (0x1FBE, 0x1FBE), (0x1FC2, 0x1FC4), (0x1FC6, 0x1FCC), (0x1FD0, 0x1FD3),
     (0x1FD6, 0x1FDB), (0x1FE0, 0x1FEC), (0x1FF2, 0x1FF4), (0x1FF6, 0x1FFC), (0x2102, 0x2102),
     (0x2107, 0x2107), (0x210A, 0x2113), (0x2115, 0x2115), (0x2119, 0x211D), (0x2124, 0x2124),
     (0x2126, 0x2126), (0x2128, 0x2128), (0x212A, 0x212D), (0x212F, 0x2134), (0x2139, 0x2139),
     (0x213C, 0x213F), (0x2145, 0x2149), (0x214E, 0x214E), (0x2160, 0x217F), (0x2183, 0x2184),
     (0x24B6, 0x24E9), (0x2C00, 0x2C7B), (0x2C7E, 0x2CE4), (0x2CEB, 0x2CEE), (0x2CF2, 0x2CF3),
     (0x2D00, 0x2D25), (0x2D27, 0x2D27), (0x2D2D, 0x2D2D), (0xA640, 0xA66D), (0xA680, 0xA69B),
     (0xA722, 0xA76F), (0xA771, 0xA787), (0xA78B, 0xA78E), (0xA790, 0xA7CA), (0xA7D0, 0xA7D1),
     (0xA7D3, 0xA7D3), (0xA7D5, 0xA7D9), (0xA7F5, 0xA7F6), (0xA7FA, 0xA7FA), (0xAB30, 0xAB5A),
     (0xAB60, 0xAB68), (0xAB70, 0xABBF), (0xFB00, 0xFB06), (0xFB13, 0xFB17), (0xFF21, 0xFF3A),
     (0xFF41, 0xFF5A), (0x10400, 0x1044F), (0x104B0, 0x104D3), (0x104D8, 0x104FB),
     (0x10570, 0x1057A), (0x1057C, 0x1058A), (0x1058C, 0x10592), (0x10594, 0x10595),
     (0x10597, 0x105A1), (0x105A3, 0x105B1), (0x105B3, 0x105B9), (0x105BB, 0x105BC),
     (0x10C80, 0x10CB2), (0x10CC0, 0x10CF2), (0x118A0, 0x118DF), (0x16E40, 0x16E7F),
     (0x1D400, 0x1D454), (0x1D456, 0x1D49C), (0x1D49E, 0x1D49F), (0x1D4A2, 0x1D4A2),
     (0x1D4A5, 0x1D4A6), (0x1D4A9, 0x1D4AC), (0x1D4AE, 0x1D4B9), (0x1D4BB, 0x1D4BB),
     (0x1D4BD, 0x1D4C3), (0x1D4C5, 0x1D505), (0x1D507, 0x1D50A), (0x1D50D, 0x1D514),
     (0x1D516, 0x1D51C), (0x1D51E, 0x1D539), (0x1D53B, 0x1D53E), (0x1D540, 0x1D544),
     (0x1D546, 0x1D546), (0x1D54A, 0x1D550), (0x1D552, 0x1D6A5), (0x1D6A8, 0x1D6C0),
     (0x1D6C2, 0x1D6DA), (0x1D6DC, 0x1D6FA), (0x1D6FC, 0x1D714), (0x1D716, 0x1D734),
     (0x1D736, 0x1D74E), (0x1D750, 0x1D76E), (0x1D770, 0x1D788), (0x1D78A, 0x1D7A8),
     (0x1D7AA, 0x1D7C2), (0x1D7C4, 0x1D7CB), (0x1DF00, 0x1DF09), (0x1DF0B, 0x1DF1E),
     (0x1E900, 0x1E943), (0x1F130, 0x1F149), (0x1F150, 0x1F169), (0x1F170, 0x1F189)]"

definition ignorableTable :: "(int \<times> int) list" where
  "ignorableTable =
    [(0x27, 0x27), (0x2E, 0x2E), (0x3A, 0x3A), (0x5E, 0x5E), (0x60, 0x60), (0xA8, 0xA8),
     (0xAD, 0xAD), (0xAF, 0xAF), (0xB4, 0xB4), (0xB7, 0xB8), (0x2B0, 0x36F), (0x374, 0x375),
     (0x37A, 0x37A), (0x384, 0x385), (0x387, 0x387), (0x483, 0x489), (0x559, 0x559),
     (0x55F, 0x55F), (0x591, 0x5BD), (0x5BF, 0x5BF), (0x5C1, 0x5C2), (0x5C4, 0x5C5),
     (0x5C7, 0x5C7), (0x5F4, 0x5F4), (0x600, 0x605), (0x610, 0x61A), (0x61C, 0x61C),
     (0x640, 0x640), (0x64B, 0x65F), (0x670, 0x670), (0x6D6, 0x6DD), (0x6DF, 0x6E8),
     (0x6EA, 0x6ED), (0x70F, 0x70F), (0x711, 0x711), (0x730, 0x74A), (0x7A6, 0x7B0),
     (0x7EB, 0x7F5), (0x7FA, 0x7FA), (0x7FD, 0x7FD), (0x816, 0x82D), (0x859, 0x85B),
     (0x888, 0x888), (0x890, 0x891), (0x898, 0x89F), (0x8C9, 0x902), (0x93A, 0x93A),
     (0x93C, 0x93C), (0x941, 0x948), (0x94D, 0x94D), (0x951, 0x957), (0x962, 0x963),
     (0x971, 0x971), (0x981, 0x981), (0x9BC, 0x9BC), (0x9C1, 0x9C4), (0x9CD, 0x9CD),
     (0x9E2, 0x9E3), (0x9FE, 0x9FE), (0xA01, 0xA02), (0xA3C, 0xA3C), (0xA41, 0xA42),
     (0xA47, 0xA48), (0xA4B, 0xA4D), (0xA51, 0xA51), (0xA70, 0xA71), (0xA75, 0xA75),
     (0xA81, 0xA82), (0xABC, 0xABC), (0xAC1, 0xAC5), (0xAC7, 0xAC8), (0xACD, 0xACD),
     (0xAE2, 0xAE3), (0xAFA, 0xAFF), (0xB01, 0xB01), (0xB3C, 0xB3C), (0xB3F, 0xB3F),
     (0xB41, 0xB44), (0xB4D, 0xB4D), (0xB55, 0xB56), (0xB62, 0xB63), (0xB82, 0xB82),
     (0xBC0, 0xBC0), (0xBCD, 0xBCD), (0xC00, 0xC00), (0xC04, 0xC04), (0xC3C, 0xC3C),
     (0xC3E, 0xC40), (0xC46, 0xC48), (0xC4A, 0xC4D), (0xC55, 0xC56), (0xC62, 0xC63),
     (0xC81, 0xC81), (0xCBC, 0xCBC), (0xCBF, 0xCBF), (0xCC6, 0xCC6), (0xCCC, 0xCCD),
     (0xCE2, 0xCE3), (0xD00, 0xD01), (0xD3B, 0xD3C), (0xD41, 0xD44), (0xD4D, 0xD4D),
     (0xD62, 0xD63), (0xD81, 0xD81), (0xDCA, 0xDCA), (0xDD2, 0xDD4), (0xDD6, 0xDD6),
     (0xE31, 0xE31), (0xE34, 0xE3A), (0xE46, 0xE4E), (0xEB1, 0xEB1), (0xEB4, 0xEBC),
     (0xEC6, 0xEC6), (0xEC8, 0xECD), (0xF18, 0xF19), (0xF35, 0xF35), (0xF37, 0xF37),
     (0xF39, 0xF39), (0xF71, 0xF7E), (0xF80, 0xF84), (0xF86, 0xF87), (0xF8D, 0xF97),
     (0xF99, 0xFBC), (0xFC6, 0xFC6), (0x102D, 0x1030), (0x1032, 0x1037), (0x1039, 0x103A),
     (0x103D, 0x103E), (0x1058, 0x1059), (0x105E, 0x1060), (0x1071, 0x1074), (0x1082, 0x1082),
     (0x1085, 0x1086), (0x108D, 0x108D), (0x109D, 0x109D), (0x10FC, 0x10FC), (0x135D, 0x135F),
     (0x1712, 0x1714), (0x1732, 0x1733), (0x1752, 0x1753), (0x1772, 0x1773), (0x17B4, 0x17B5),
     (0x17B7, 0x17BD), (0x17C6, 0x17C6), (0x17C9, 0x17D3), (0x17D7, 0x17D7), (0x17DD, 0x17DD),
     (0x180B, 0x180F), (0x1843, 0x1843), (0x1885, 0x1886), (0x18A9, 0x18A9), (0x1920, 0x1922),
     (0x1927, 0x1928), (0x1932, 0x1932), (0x1939, 0x193B), (0x1A17, 0x1A18), (0x1A1B, 0x1A1B),
     (0x1A56, 0x1A56), (0x1A58, 0x1A5E), (0x1A60, 0x1A60), (0x1A62, 0x1A62), (0x1A65, 0x1A6C),
     (0x1A73, 0x1A7C), (0x1A7F, 0x1A7F), (0x1AA7, 0x1AA7), (0x1AB0, 0x1ACE), (0x1B00, 0x1B03),
     (0x1B34, 0x1B34), (0x1B36, 0x1B3A), (0x1B3C, 0x1B3C), (0x1B42, 0x1B42), (0x1B6B, 0x1B73),
     (0x1B80, 0x1B81), (0x1BA2, 0x1BA5), (0x1BA8, 0x1BA9), (0x1BAB, 0x1BAD), (0x1BE6, 0x1BE6),
     (0x1BE8, 0x1BE9), (0x1BED, 0x1BED), (0x1BEF, 0x1BF1), (0x1C2C, 0x1C33), (0x1C36, 0x1C37),
     (0x1C78, 0x1C7D), (0x1CD0, 0x1CD2), (0x1CD4, 0x1CE0), (0x1CE2, 0x1CE8), (0x1CED, 0x1CED),
     (0x1CF4, 0x1CF4), (0x1CF8, 0x1CF9), (0x1D2C, 0x1D6A), (0x1D78, 0x1D78), (0x1D9B, 0x1DFF),
     (0x1FBD, 0x1FBD), (0x1FBF, 0x1FC1), (0x1FCD, 0x1FCF), (0x1FDD, 0x1FDF), (0x1FED, 0x1FEF),
     (0x1FFD, 0x1FFE), (0x200B, 0x200F), (0x2018, 0x2019), (0x2024, 0x2024), (0x2027, 0x2027),
     (0x202A, 0x202E), (0x2060, 0x2064), (0x2066, 0x206F), (0x2071, 0x2071), (0x207F, 0x207F),
     (0x2090, 0x209C), (0x20D0, 0x20F0), (0x2C7C, 0x2C7D), (0x2CEF, 0x2CF1), (0x2D6F, 0x2D6F),
     (0x2D7F, 0x2D7F), (0x2DE0, 0x2DFF), (0x2E2F, 0x2E2F), (0x3005, 0x3005), (0x302A, 0x302D),
     (0x3031, 0x3035), (0x303B, 0x303B), (0x3099, 0x309E), (0x30FC, 0x30FE), (0xA015, 0xA015),
     (0xA4F8, 0xA4FD), (0xA60C, 0xA60C), (0xA66F, 0xA672), (0xA674, 0xA67D), (0xA67F, 0xA67F),
     (0xA69C, 0xA69F), (0xA6F0, 0xA6F1), (0xA700, 0xA721), (0xA770, 0xA770), (0xA788, 0xA78A),
     (0xA7F2, 0xA7F4), (0xA7F8, 0xA7F9), (0xA802, 0xA802), (0xA806, 0xA806), (0xA80B, 0xA80B),
     (0xA825, 0xA826), (0xA82C, 0xA82C), (0xA8C4, 0xA8C5), (0xA8E0, 0xA8F1), (0xA8FF, 0xA8FF),
     (0xA926, 0xA92D), (0xA947, 0xA951), (0xA980, 0xA982), (0xA9B3, 0xA9B3), (0xA9B6, 0xA9B9),
     (0xA9BC, 0xA9BD), (0xA9CF, 0xA9CF), (0xA9E5, 0xA9E6), (0xAA29, 0xAA2E), (0xAA31, 0xAA32),
     (0xAA35, 0xAA36), (0xAA43, 0xAA43), (0xAA4C, 0xAA4C), (0xAA70, 0xAA70), (0xAA7C, 0xAA7C),
     (0xAAB0, 0xAAB0), (0xAAB2, 0xAAB4), (0xAAB7, 0xAAB8), (0xAABE, 0xAABF), (0xAAC1, 0xAAC1),
     (0xAADD, 0xAADD), (0xAAEC, 0xAAED), (0xAAF3, 0xAAF4), (0xAAF6, 0xAAF6), (0xAB5B, 0xAB5F),
     (0xAB69, 0xAB6B), (0xABE5, 0xABE5), (0xABE8, 0xABE8), (0xABED, 0xABED), (0xFB1E, 0xFB1E),
     (0xFBB2, 0xFBC2), (0xFE00, 0xFE0F), (0xFE13, 0xFE13), (0xFE20, 0xFE2F), (0xFE52, 0xFE52),
     (0xFE55, 0xFE55), (0xFEFF, 0xFEFF), (0xFF07, 0xFF07), (0xFF0E, 0xFF0E), (0xFF1A, 0xFF1A),
     (0xFF3E, 0xFF3E), (0xFF40, 0xFF40), (0xFF70, 0xFF70), (0xFF9E, 0xFF9F), (0xFFE3, 0xFFE3),
     (0xFFF9, 0xFFFB), (0x101FD, 0x101FD), (0x102E0, 0x102E0), (0x10376, 0x1037A),
     (0x10780, 0x10785), (0x10787, 0x107B0), (0x107B2, 0x107BA), (0x10A01, 0x10A03),
     (0x10A05, 0x10A06), (0x10A0C, 0x10A0F), (0x10A38, 0x10A3A), (0x10A3F, 0x10A3F),
     (0x10AE5, 0x10AE6), (0x10D24, 0x10D27), (0x10EAB, 0x10EAC), (0x10F46, 0x10F50),
     (0x10F82, 0x10F85), (0x11001, 0x11001), (0x11038, 0x11046), (0x11070, 0x11070),
     (0x11073, 0x11074), (0x1107F, 0x11081), (0x110B3, 0x110B6), (0x110B9, 0x110BA),
     (0x110BD, 0x110BD), (0x110C2, 0x110C2), (0x110CD, 0x110CD), (0x11100, 0x11102),
     (0x11127, 0x1112B), (0x1112D, 0x11134), (0x11173, 0x11173), (0x11180, 0x11181),
     (0x111B6, 0x111BE), (0x111C9, 0x111CC), (0x111CF, 0x111CF), (0x1122F, 0x11231),
     (0x11234, 0x11234), (0x11236, 0x11237), (0x1123E, 0x1123E), (0x112DF, 0x112DF),
     (0x112E3, 0x112EA), (0x11300, 0x11301), (0x1133B, 0x1133C), (0x11340, 0x11340),
     (0x11366, 0x1136C), (0x11370, 0x11374), (0x11438, 0x1143F), (0x11442, 0x11444),
     (0x11446, 0x11446), (0x1145E, 0x1145E), (0x114B3, 0x114B8), (0x114BA, 0x114BA),
     (0x114BF, 0x114C0), (0x114C2, 0x114C3), (0x115B2, 0x115B5), (0x115BC, 0x115BD),
     (0x115BF, 0x115C0), (0x115DC, 0x115DD), (0x11633, 0x1163A), (0x1163D, 0x1163D),
     (0x1163F, 0x11640), (0x116AB, 0x116AB), (0x116AD, 0x116AD), (0x116B0, 0x116B5),
     (0x116B7, 0x116B7), (0x1171D, 0x1171F), (0x11722, 0x11725), (0x11727, 0x1172B),
     (0x1182F, 0x11837), (0x11839, 0x1183A), (0x1193B, 0x1193C), (0x1193E, 0x1193E),
     (0x11943, 0x11943), (0x119D4, 0x119D7), (0x119DA, 0x119DB), (0x119E0, 0x119E0),
     (0x11A01, 0x11A0A), (0x11A33, 0x11A38), (0x11A3B, 0x11A3E), (0x11A47, 0x11A47),
     (0x11A51, 0x11A56), (0x11A59, 0x11A5B), (0x11A8A, 0x11A96), (0x11A98, 0x11A99),
     (0x11C30, 0x11C36), (0x11C38, 0x11C3D), (0x11C3F, 0x11C3F), (0x11C92, 0x11CA7),
     (0x11CAA, 0x11CB0), (0x11CB2, 0x11CB3), (0x11CB5, 0x11CB6), (0x11D31, 0x11D36),
     (0x11D3A, 0x11D3A), (0x11D3C, 0x11D3D), (0x11D3F, 0x11D45), (0x11D47, 0x11D47),
     (0x11D90, 0x11D91), (0x11D95, 0x11D95), (0x11D97, 0x11D97), (0x11EF3, 0x11EF4),
     (0x13430, 0x13438), (0x16AF0, 0x16AF4), (0x16B30, 0x16B36), (0x16B40, 0x16B43),
     (0x16F4F, 0x16F4F), (0x16F8F, 0x16F9F), (0x16FE0, 0x16FE1), (0x16FE3, 0x16FE4),
     (0x1AFF0, 0x1AFF3), (0x1AFF5, 0x1AFFB), (0x1AFFD, 0x1AFFE), (0x1BC9D, 0x1BC9E),
     (0x1BCA0, 0x1BCA3), (0x1CF00, 0x1CF2D), (0x1CF30, 0x1CF46), (0x1D167, 0x1D169),
     (0x1D173, 0x1D182), (0x1D185, 0x1D18B), (0x1D1AA, 0x1D1AD), (0x1D242, 0x1D244),
     (0x1DA00, 0x1DA36), (0x1DA3B, 0x1DA6C), (0x1DA75, 0x1DA75), (0x1DA84, 0x1DA84),
     (0x1DA9B, 0x1DA9F), (0x1DAA1, 0x1DAAF), (0x1E000, 0x1E006), (0x1E008, 0x1E018),
     (0x1E01B, 0x1E021), (0x1E023, 0x1E024), (0x1E026, 0x1E02A), (0x1E130, 0x1E13D),
     (0x1E2AE, 0x1E2AE), (0x1E2EC, 0x1E2EF), (0x1E8D0, 0x1E8D6), (0x1E944, 0x1E94B),
     (0x1F3FB, 0x1F3FF), (0xE0001, 0xE0001), (0xE0020, 0xE007F), (0xE0100, 0xE01EF)]"

definition inEntry :: "int \<Rightarrow> int \<times> int \<times> int \<times> int \<Rightarrow> bool" where
  "inEntry n e = (case e of (lo, hi, st, d) \<Rightarrow> lo \<le> n \<and> n \<le> hi \<and> (n - lo) mod st = 0)"

definition lowerUnit :: "jchar \<Rightarrow> jchar" where
  "lowerUnit c =
     (case find (inEntry (uint c)) lowerTable of
        None \<Rightarrow> c
      | Some (lo, hi, st, d) \<Rightarrow> word_of_int (uint c + d))"

definition inPairEntry :: "jchar \<Rightarrow> jchar \<Rightarrow> jchar \<times> int \<times> int \<times> int \<Rightarrow> bool" where
  "inPairEntry h l e = (case e of (h', lo, hi, d) \<Rightarrow> h = h' \<and> lo \<le> uint l \<and> uint l \<le> hi)"

definition lowerPair :: "jchar \<Rightarrow> jchar \<Rightarrow> jstring" where
  "lowerPair h l =
     (case find (inPairEntry h l) lowerPairTable of
        None \<Rightarrow> [h, l]
      | Some (h', lo, hi, d) \<Rightarrow> [h, word_of_int (uint l + d)])"

definition inRanges :: "int \<Rightarrow> (int \<times> int) list \<Rightarrow> bool" where
  "inRanges n t = list_ex (\<lambda>(lo, hi). lo \<le> n \<and> n \<le> hi) t"

definition codePoint :: "jchar \<Rightarrow> jchar \<Rightarrow> int" where
  "codePoint h l = 0x10000 + (uint h - 0xD800) * 0x400 + (uint l - 0xDC00)"

fun casedAhead :: "jstring \<Rightarrow> bool" where
  "casedAhead [] = False"
| "casedAhead [c] = (\<not> inRanges (uint c) ignorableTable \<and> inRanges (uint c) casedTable)"
| "casedAhead (c # d # cs) =
     (if isHighSurrogate c \<and> isLowSurrogate d then
        (if inRanges (codePoint c d) ignorableTable then casedAhead cs
         else inRanges (codePoint c d) casedTable)
      else if inRanges (uint c) ignorableTable then casedAhead (d # cs)
      else inRanges (uint c) casedTable)"

fun casedBehind :: "jstring \<Rightarrow> bool" where
  "casedBehind [] = False"
| "casedBehind [c] = (\<not> inRanges (uint c) ignorableTable \<and> inRanges (uint c) casedTable)"
| "casedBehind (d # c # cs) =
     (if isHighSurrogate c \<and> isLowSurrogate d then
        (if inRanges (codePoint c d) ignorableTable then casedBehind cs
         else inRanges (codePoint c d) casedTable)
      else if inRanges (uint d) ignorableTable then casedBehind (c # cs)
      else inRanges (uint d) casedTable)"

definition lowerOne :: "jstring \<Rightarrow> jchar \<Rightarrow> jstring \<Rightarrow> jstring" where
  "lowerOne prev c after =
     (if c = 0x3A3 then (if casedBehind prev \<and> \<not> casedAhead after then [0x3C2] else [0x3C3])
      else if c = 0x130 then [0x69, 0x307]
      else [lowerUnit c])"

fun lowerLoop :: "jstring \<Rightarrow> jstring \<Rightarrow> jstring" where
  "lowerLoop prev [] = []"
| "lowerLoop prev [c] = lowerOne prev c []"
| "lowerLoop prev (c # d # cs) =
     (if isHighSurrogate c \<and> isLowSurrogate d
      then lowerPair c d @ lowerLoop (d # c # prev) cs
      else lowerOne prev c (d # cs) @ lowerLoop (c # prev) (d # cs))"

definition toLowerCase :: "jstring \<Rightarrow> jstring" where
  "toLowerCase s = lowerLoop [] s"

subsection \<open>Regular expressions of the runtime\<close>

text \<open>
  The source works through regular-expression literals.  A literal is a term of the
  type \<open>re\<close> below, read off the literal symbol by symbol, and \<open>rmatch\<close> is the
  backtracking matcher of ECMAScript on code units (no \<open>u\<close> flag is used): it returns
  the end states of all ways to match at a position, in the order in which
  backtracking tries them, so the head of the list is the match.  The flag \<open>i\<close> folds
  the Basic Latin letters; every other character of the patterns of this module is
  caseless.
\<close>

datatype atom = Ch jchar | Dot | Digit | Space | Rng jchar jchar

datatype re = Atom atom | OneOf "atom list" | NoneOf "atom list"
  | Eps | Bol | Eol | Seq re re | Alt re re | Opt re | Star re | LazyStar re | Group nat re

definition canon :: "bool \<Rightarrow> jchar \<Rightarrow> jchar" where
  "canon ci c = (if ci \<and> 0x61 \<le> c \<and> c \<le> 0x7A then c - 0x20 else c)"

fun atomOk :: "bool \<Rightarrow> atom \<Rightarrow> jchar \<Rightarrow> bool" where
  "atomOk ci (Ch d) c = (canon ci c = canon ci d)"
| "atomOk ci Dot c = (\<not> isLineTerminator c)"
| "atomOk ci Digit c = isDigit c"
| "atomOk ci Space c = isWhiteSpace c"
| "atomOk ci (Rng lo hi) c = (lo \<le> c \<and> c \<le> hi)"

type_synonym groups = "nat \<rightharpoonup> jstring"
type_synonym mstate = "nat \<times> jstring \<times> groups"

fun rmatch :: "bool \<Rightarrow> re \<Rightarrow> mstate \<Rightarrow> mstate list" where
  "rmatch ci (Atom a) (p, [], g) = []"
| "rmatch ci (Atom a) (p, c # cs, g) = (if atomOk ci a c then [(Suc p, cs, g)] else [])"
| "rmatch ci (OneOf as) (p, [], g) = []"
| "rmatch ci (OneOf as) (p, c # cs, g) =
     (if list_ex (\<lambda>a. atomOk ci a c) as then [(Suc p, cs, g)] else [])"
| "rmatch ci (NoneOf as) (p, [], g) = []"
| "rmatch ci (NoneOf as) (p, c # cs, g) =
     (if list_ex (\<lambda>a. atomOk ci a c) as then [] else [(Suc p, cs, g)])"
| "rmatch ci Eps s = [s]"
| "rmatch ci Bol (p, r, g) = (if p = 0 then [(p, r, g)] else [])"
| "rmatch ci Eol (p, r, g) = (if r = [] then [(p, r, g)] else [])"
| "rmatch ci (Seq a b) s = concat (map (rmatch ci b) (rmatch ci a s))"
| "rmatch ci (Alt a b) s = rmatch ci a s @ rmatch ci b s"
| "rmatch ci (Opt a) s = rmatch ci a s @ [s]"
| "rmatch ci (Star a) (p, r, g) =
     concat (map (rmatch ci (Star a))
               (filter (\<lambda>(p', r', g'). length r' < length r) (rmatch ci a (p, r, g))))
     @ [(p, r, g)]"
| "rmatch ci (LazyStar a) (p, r, g) =
     (p, r, g) # concat (map (rmatch ci (LazyStar a))
               (filter (\<lambda>(p', r', g'). length r' < length r) (rmatch ci a (p, r, g))))"
| "rmatch ci (Group n a) (p, r, g) =
     map (\<lambda>(p', r', g'). (p', r', g'(n \<mapsto> take (p' - p) r))) (rmatch ci a (p, r, g))"

definition Plus :: "re \<Rightarrow> re" where
  "Plus a = Seq a (Star a)"

fun lit :: "jstring \<Rightarrow> re" where
  "lit [] = Eps"
| "lit [c] = Atom (Ch c)"
| "lit (c # cs) = Seq (Atom (Ch c)) (lit cs)"

fun seqs :: "re list \<Rightarrow> re" where
  "seqs [] = Eps"
| "seqs [a] = a"
| "seqs (a # as) = Seq a (seqs as)"

fun alts :: "re list \<Rightarrow> re" where
  "alts [] = Eps"
| "alts [a] = a"
| "alts (a # as) = Alt a (alts as)"

definition grp :: "groups \<Rightarrow> nat \<Rightarrow> jstring" where
  \<comment> \<open>\<open>$n\<close> in a replacement: a group that took no part is the empty string\<close>
  "grp g n = (case g n of None \<Rightarrow> [] | Some s \<Rightarrow> s)"

fun regexSearch :: "bool \<Rightarrow> re \<Rightarrow> nat \<Rightarrow> jstring \<Rightarrow> (nat \<times> mstate) option" where
  \<comment> \<open>the leftmost match at or after position \<open>p\<close>, where \<open>rest\<close> is the input from \<open>p\<close> on\<close>
  "regexSearch ci r p [] =
     (case rmatch ci r (p, [], Map.empty) of [] \<Rightarrow> None | m # ms \<Rightarrow> Some (p, m))"
| "regexSearch ci r p (c # cs) =
     (case rmatch ci r (p, c # cs, Map.empty) of
        [] \<Rightarrow> regexSearch ci r (Suc p) cs
      | m # ms \<Rightarrow> Some (p, m))"

definition regexTest :: "bool \<Rightarrow> re \<Rightarrow> jstring \<Rightarrow> bool" where
  "regexTest ci r s = (regexSearch ci r 0 s \<noteq> None)"

definition regexMatch :: "bool \<Rightarrow> re \<Rightarrow> jstring \<Rightarrow> groups option" where
  \<comment> \<open>\<open>s.match(r)\<close> for a literal without the flag \<open>g\<close>: the groups of the first match\<close>
  "regexMatch ci r s = (case regexSearch ci r 0 s of None \<Rightarrow> None | Some (p, e, rest, g) \<Rightarrow> Some g)"

definition replaceFirst :: "bool \<Rightarrow> re \<Rightarrow> (groups \<Rightarrow> jstring) \<Rightarrow> jstring \<Rightarrow> jstring" where
  \<comment> \<open>\<open>s.replace(r, f)\<close> for a literal without the flag \<open>g\<close>\<close>
  "replaceFirst ci r f s =
     (case regexSearch ci r 0 s of None \<Rightarrow> s
      | Some (p, e, rest, g) \<Rightarrow> take p s @ f g @ rest)"

function replaceLoop :: "bool \<Rightarrow> re \<Rightarrow> (groups \<Rightarrow> jstring) \<Rightarrow> nat \<Rightarrow> jstring \<Rightarrow> jstring" where
  \<comment> \<open>\<open>s.replace(r, f)\<close> with the flag \<open>g\<close>, from position \<open>p\<close>: after an empty match the
      search moves on by one code unit, which is kept\<close>
  "replaceLoop ci r f p [] =
     (case rmatch ci r (p, [], Map.empty) of [] \<Rightarrow> [] | (e, rest, g) # ms \<Rightarrow> f g)"
| "replaceLoop ci r f p (c # cs) =
     (case rmatch ci r (p, c # cs, Map.empty) of
        [] \<Rightarrow> c # replaceLoop ci r f (Suc p) cs
      | (e, rest, g) # ms \<Rightarrow>
          f g @ (if length rest < length (c # cs) then replaceLoop ci r f e rest
                 else c # replaceLoop ci r f (Suc p) cs))"
  by pat_completeness auto
termination
  by (relation "measure (\<lambda>(ci, r, f, p, s). length s)") auto

definition replaceAll :: "bool \<Rightarrow> re \<Rightarrow> (groups \<Rightarrow> jstring) \<Rightarrow> jstring \<Rightarrow> jstring" where
  "replaceAll ci r f s = replaceLoop ci r f 0 s"


subsection \<open>cleanText\<close>

definition cnNumsText :: "jstring \<Rightarrow> jstring" where
  \<comment> \<open>the table \<open>cnNums\<close> of \<open>cleanText\<close>: the numerals one to ten, U+4E00 ... U+5341\<close>
  "cnNumsText k =
     (if k = [0x4E00] then asc ''1'' else if k = [0x4E8C] then asc ''2''
      else if k = [0x4E09] then asc ''3'' else if k = [0x56DB] then asc ''4''
      else if k = [0x4E94] then asc ''5'' else if k = [0x516D] then asc ''6''
      else if k = [0x4E03] then asc ''7'' else if k = [0x516B] then asc ''8''
      else if k = [0x4E5D] then asc ''9'' else if k = [0x5341] then asc ''10''
      else asc ''undefined'')"

definition rMap :: "jstring \<Rightarrow> jstring" where
  "rMap k =
     (if k = asc ''I'' then asc ''1'' else if k = asc ''II'' then asc ''2''
      else if k = asc ''III'' then asc ''3'' else if k = asc ''IV'' then asc ''4''
      else asc ''undefined'')"

definition reLParen :: re where
  \<comment> \<open>\<open>(\(|\uFF08)\<close> without its group\<close>
  "reLParen = Alt (Atom (Ch 0x28)) (Atom (Ch 0xFF08))"

definition reRParen :: re where
  \<comment> \<open>\<open>(\)|\uFF09)\<close> without its group\<close>
  "reRParen = Alt (Atom (Ch 0x29)) (Atom (Ch 0xFF09))"

definition reFinalSeason :: re where
  \<comment> \<open>\<open>/(?:The\s+)?Final\s+Season/gi\<close>\<close>
  "reFinalSeason = seqs [Opt (Seq (lit (asc ''The'')) (Plus (Atom Space))),
                         lit (asc ''Final''), Plus (Atom Space), lit (asc ''Season'')]"

definition reSeason :: re where
  \<comment> \<open>\<open>/(?:Season|S)\s*(\d+)/gi\<close>\<close>
  "reSeason = seqs [Alt (lit (asc ''Season'')) (lit (asc ''S'')), Star (Atom Space),
                    Group 1 (Plus (Atom Digit))]"

definition reCnSeason :: re where
  \<comment> \<open>\<open>/\u7B2C([\u4E00\u4E8C\u4E09\u56DB\u4E94\u516D\u4E03\u516B\u4E5D\u5341])\u5B63/g\<close>\<close>
  "reCnSeason = seqs [Atom (Ch 0x7B2C),
       Group 1 (OneOf [Ch 0x4E00, Ch 0x4E8C, Ch 0x4E09, Ch 0x56DB, Ch 0x4E94,
                       Ch 0x516D, Ch 0x4E03, Ch 0x516B, Ch 0x4E5D, Ch 0x5341]),
       Atom (Ch 0x5B63)]"

definition rePart :: re where
  \<comment> \<open>\<open>/(?:Part|P)[\s.]*(\d+)/gi\<close>\<close>
  "rePart = seqs [Alt (lit (asc ''Part'')) (lit (asc ''P'')), Star (OneOf [Space, Ch 0x2E]),
                  Group 1 (Plus (Atom Digit))]"

definition reRoman :: re where
  \<comment> \<open>\<open>/(\s|^)(IV|III|II|I)(\s|$)/g\<close>\<close>
  "reRoman = seqs [Group 1 (Alt (Atom Space) Bol),
       Group 2 (alts [lit (asc ''IV''), lit (asc ''III''), lit (asc ''II''), lit (asc ''I'')]),
       Group 3 (Alt (Atom Space) Eol)]"

definition reDubCn :: re where
  \<comment> \<open>\<open>/(\(|\uFF08)?(\u666E\u901A\u8BDD|\u56FD\u8BED|\u4E2D\u6587\u914D\u97F3|\u4E2D\u914D)\u7248?(\)|\uFF09)?/g\<close>\<close>
  "reDubCn = seqs [Opt (Group 1 reLParen),
       Group 2 (alts [lit [0x666E, 0x901A, 0x8BDD], lit [0x56FD, 0x8BED],
                      lit [0x4E2D, 0x6587, 0x914D, 0x97F3], lit [0x4E2D, 0x914D]]),
       Opt (Atom (Ch 0x7248)), Opt (Group 3 reRParen)]"

definition reDubJp :: re where
  \<comment> \<open>\<open>/(\(|\uFF08)?(\u65E5\u8BED|\u65E5\u914D|\u539F\u7248)\u7248?(\)|\uFF09)?/g\<close>\<close>
  "reDubJp = seqs [Opt (Group 1 reLParen),
       Group 2 (alts [lit [0x65E5, 0x8BED], lit [0x65E5, 0x914D], lit [0x539F, 0x7248]]),
       Opt (Atom (Ch 0x7248)), Opt (Group 3 reRParen)]"

definition reSourceTag :: re where
  \<comment> \<open>\<open>/\u3010.*?\u3011/g\<close>\<close>
  "reSourceTag = seqs [Atom (Ch 0x3010), LazyStar (Atom Dot), Atom (Ch 0x3011)]"

definition reRegionNote :: re where
  \<comment> \<open>\<open>/(\(|\uFF08)\u4EC5\u9650.*?\u5730\u533A(\)|\uFF09)/g\<close>\<close>
  "reRegionNote = seqs [Group 1 reLParen, lit [0x4EC5, 0x9650], LazyStar (Atom Dot),
                        lit [0x5730, 0x533A], Group 2 reRParen]"

definition rePunctuation :: re where
  \<comment> \<open>\<open>/[!\uFF01?\uFF1F,\uFF0C.\u3002\u3001~\uFF5E:\uFF1A\-\u2013\u2014]/g\<close>\<close>
  "rePunctuation = OneOf [Ch 0x21, Ch 0xFF01, Ch 0x3F, Ch 0xFF1F, Ch 0x2C, Ch 0xFF0C, Ch 0x2E,
       Ch 0x3002, Ch 0x3001, Ch 0x7E, Ch 0xFF5E, Ch 0x3A, Ch 0xFF1A, Ch 0x2D, Ch 0x2013,
       Ch 0x2014]"

definition reSpaces :: re where
  \<comment> \<open>\<open>/\s+/g\<close>\<close>
  "reSpaces = Plus (Atom Space)"

definition cleanRewrite :: "(jstring \<Rightarrow> jstring) \<Rightarrow> jstring \<Rightarrow> jstring" where
  \<comment> \<open>the statements of \<open>cleanText\<close> before its \<open>return\<close>.  \<open>simplized\<close> is the converter
      of zh-util.js, which is not among the sources: it is a parameter.\<close>
  "cleanRewrite simplized text =
     (let clean = simplized text;
          clean = replaceAll True reFinalSeason (\<lambda>g. [0x6700, 0x7EC8, 0x5B63]) clean;
          clean = replaceAll True reSeason (\<lambda>g. [0x7B2C] @ grp g 1 @ [0x5B63]) clean;
          clean = replaceAll False reCnSeason
                    (\<lambda>g. [0x7B2C] @ cnNumsText (grp g 1) @ [0x5B63]) clean;
          clean = replaceAll True rePart (\<lambda>g. [0x7B2C] @ grp g 1 @ [0x90E8, 0x5206]) clean;
          clean = replaceAll False reRoman
                    (\<lambda>g. grp g 1 @ [0x7B2C] @ rMap (grp g 2) @ [0x5B63] @ grp g 3) clean;
          clean = replaceAll False reDubCn (\<lambda>g. [0x4E2D, 0x914D, 0x7248]) clean;
          clean = replaceAll False reDubJp (\<lambda>g. []) clean;
          clean = replaceAll False reSourceTag (\<lambda>g. []) clean;
          clean = replaceAll False reRegionNote (\<lambda>g. []) clean;
          clean = replaceAll False rePunctuation (\<lambda>g. asc '' '') clean
      in clean)"

definition cleanFinish :: "jstring \<Rightarrow> jstring" where
  \<comment> \<open>\<open>clean.replace(/\s+/g, ' ').toLowerCase().trim()\<close>\<close>
  "cleanFinish clean = trim (toLowerCase (replaceAll False reSpaces (\<lambda>g. asc '' '') clean))"

definition cleanText :: "(jstring \<Rightarrow> jstring) \<Rightarrow> jstring \<Rightarrow> jstring" where
  "cleanText simplized text =
     (if text = [] then [] else cleanFinish (cleanRewrite simplized text))"

definition reParens :: re where
  \<comment> \<open>\<open>/(\(|\uFF08).*?(\)|\uFF09)/g\<close>\<close>
  "reParens = seqs [Group 1 reLParen, LazyStar (Atom Dot), Group 2 reRParen]"

definition removeParentheses :: "jstring \<Rightarrow> jstring" where
  "removeParentheses text =
     (if text = [] then [] else trim (replaceAll False reParens (\<lambda>g. []) text))"

definition simplizedLatin :: "jstring \<Rightarrow> jstring" where
  \<comment> \<open>Modelled from the spec: zh-util.js is not among the sources.  The specification
      says that the normaliser "converts to simplified-script form"; a text without
      traditional Chinese characters is in that form already and is returned as it is.
      This is the instance used where a concrete text without such characters is
      evaluated.\<close>
  "simplizedLatin s = s"

subsection \<open>generateSafeMergedId\<close>

datatype idValue = IdNum int | IdStr jstring

fun idToString :: "idValue \<Rightarrow> jstring" where
  "idToString (IdNum n) = intToString n"
| "idToString (IdStr s) = s"

definition toInt32 :: "int \<Rightarrow> int" where
  \<comment> \<open>\<open>x | 0\<close> and the result of \<open><<\<close>: the value wrapped to a signed 32-bit integer\<close>
  "toInt32 x = (x + 2 ^ 31) mod 2 ^ 32 - 2 ^ 31"

definition hashStep :: "int \<Rightarrow> jchar \<Rightarrow> int" where
  \<comment> \<open>\<open>hash = ((hash << 5) - hash) + str.charCodeAt(i); hash |= 0\<close>\<close>
  "hashStep h c = toInt32 ((toInt32 (h * 2 ^ 5) - h) + uint c)"

definition mergedIdString :: "idValue \<Rightarrow> idValue \<Rightarrow> jstring \<Rightarrow> jstring" where
  \<comment> \<open>the template \<open>`${id1}_${id2}_${salt}`\<close>\<close>
  "mergedIdString id1 id2 salt = idToString id1 @ asc ''_'' @ idToString id2 @ asc ''_'' @ salt"

definition generateSafeMergedId :: "idValue \<Rightarrow> idValue \<Rightarrow> jstring \<Rightarrow> int" where
  "generateSafeMergedId id1 id2 salt =
     \<bar>foldl hashStep 0 (mergedIdString id1 id2 salt)\<bar> mod 1000000000 + 1000000000"

definition polyHash31 :: "jstring \<Rightarrow> int" where
  \<comment> \<open>the specification's wording: \<open>hash = hash*31 + charCode\<close>, wrapped to 32 bits signed\<close>
  "polyHash31 s = foldl (\<lambda>h c. toInt32 (h * 31 + uint c)) 0 s"

subsection \<open>calculateDiceSimilarity\<close>

definition removeWhiteSpace :: "jstring \<Rightarrow> jstring" where
  \<comment> \<open>\<open>s.replace(/\s/g, '')\<close>\<close>
  "removeWhiteSpace s = filter (\<lambda>c. \<not> isWhiteSpace c) s"

definition calculateDiceSimilarity :: "jstring \<Rightarrow> jstring \<Rightarrow> rat" where
  "calculateDiceSimilarity s1 s2 =
     (if s1 = [] \<or> s2 = [] then 0
      else let set1 = newSet (stringIterator (removeWhiteSpace s1));
               set2 = newSet (stringIterator (removeWhiteSpace s2))
           in if length set1 = 0 \<and> length set2 = 0 then 1
              else if length set1 = 0 \<or> length set2 = 0 then 0
              else let intersection = length (filter (\<lambda>ch. ch \<in> set set2) set1)
                   in (2 * of_nat intersection) / of_nat (length set1 + length set2))"

subsection \<open>editDistance and calculateSimilarity\<close>

text \<open>
  \<open>editDistance\<close> fills \<open>matrix\<close> row by row.  A row is the list
  \<open>matrix[i][0..len2]\<close>; the inner loop over \<open>j\<close> reads the row above it (\<open>upper\<close>)
  from column \<open>j - 1\<close> on, and the cell to its left.
\<close>

fun innerLoop :: "jchar \<Rightarrow> jstring \<Rightarrow> nat list \<Rightarrow> nat \<Rightarrow> nat list" where
  "innerLoop c [] upper left = []"
| "innerLoop c (d # ds) (diag # up # upper) left =
     (let cost = (if c = d then 0 else 1);
          cell = min (up + 1) (min (left + 1) (diag + cost))
      in cell # innerLoop c ds (up # upper) cell)"
| "innerLoop c (d # ds) upper left = []"

fun outerLoop :: "jstring \<Rightarrow> jstring \<Rightarrow> nat \<Rightarrow> nat list \<Rightarrow> nat list" where
  \<comment> \<open>\<open>i\<close> rows are filled, \<open>row\<close> is the last of them; the rest of \<open>s1\<close> is to come\<close>
  "outerLoop [] s2 i row = row"
| "outerLoop (c # cs) s2 i row = outerLoop cs s2 (Suc i) (Suc i # innerLoop c s2 row (Suc i))"

definition editDistance :: "jstring \<Rightarrow> jstring \<Rightarrow> nat" where
  "editDistance s1 s2 = last (outerLoop s1 s2 0 [0 ..< Suc (length s2)])"

definition calculateSimilarity :: "(jstring \<Rightarrow> jstring) \<Rightarrow> jstring \<Rightarrow> jstring \<Rightarrow> rat" where
  "calculateSimilarity simplized str1 str2 =
     (if str1 = [] \<or> str2 = [] then 0
      else let s1 = cleanText simplized str1;
               s2 = cleanText simplized str2
           in if s1 = s2 then 1
              else if strIncludes s1 s2 \<or> strIncludes s2 s1 then
                let lenRatio = of_nat (min (length s1) (length s2))
                                 / of_nat (max (length s1) (length s2))
                in 8 / 10 + lenRatio * (2 / 10)
              else
                let distance = editDistance s1 s2;
                    maxLength = max (length s1) (length s2);
                    editScore = (if maxLength = 0 then 1
                                 else 1 - of_nat distance / of_nat maxLength);
                    diceScore = calculateDiceSimilarity s1 s2
                in max editScore diceScore)"

subsection \<open>Conflict detection\<close>

definition orEmpty :: "jstring option \<Rightarrow> jstring" where
  \<comment> \<open>\<open>x || ''\<close>\<close>
  "orEmpty x = (case x of None \<Rightarrow> [] | Some s \<Rightarrow> s)"

definition parseInt :: "jstring \<Rightarrow> int" where
  \<comment> \<open>\<open>parseInt\<close> of a run of digits (what the groups \<open>(\d+)\<close> capture); exact, as the
      runtime is below \<open>2^53\<close>\<close>
  "parseInt ds = foldl (\<lambda>n c. 10 * n + (uint c - 48)) 0 ds"

datatype markerRule = Prefix jstring | Val jstring

definition seasonPatterns :: "(re \<times> markerRule) list" where
  \<comment> \<open>the array \<open>patterns\<close> of \<open>extractSeasonMarkers\<close>:
      \<open>/(?:\u7B2C)?(\d+)[\u5B63\u671F\u90E8]/\<close>, \<open>/season\s*(\d+)/\<close>, \<open>/s(\d+)/\<close>,
      \<open>/part\s*(\d+)/\<close>, \<open>/(ova|oad)/\<close>, \<open>/(\u5267\u573A\u7248|movie|film|\u7535\u5F71)/\<close>,
      \<open>/(\u7EED\u7BC7|\u7EED\u96C6)/\<close>, \<open>/sp/\<close>, \<open>/[^0-9](\d)$/\<close>\<close>
  "seasonPatterns =
     [(seqs [Opt (Atom (Ch 0x7B2C)), Group 1 (Plus (Atom Digit)),
             OneOf [Ch 0x5B63, Ch 0x671F, Ch 0x90E8]], Prefix (asc ''S'')),
      (seqs [lit (asc ''season''), Star (Atom Space), Group 1 (Plus (Atom Digit))],
         Prefix (asc ''S'')),
      (seqs [lit (asc ''s''), Group 1 (Plus (Atom Digit))], Prefix (asc ''S'')),
      (seqs [lit (asc ''part''), Star (Atom Space), Group 1 (Plus (Atom Digit))],
         Prefix (asc ''P'')),
      (Group 1 (Alt (lit (asc ''ova'')) (lit (asc ''oad''))), Val (asc ''OVA'')),
      (Group 1 (alts [lit [0x5267, 0x573A, 0x7248], lit (asc ''movie''), lit (asc ''film''),
                      lit [0x7535, 0x5F71]]), Val (asc ''MOVIE'')),
      (Group 1 (Alt (lit [0x7EED, 0x7BC7]) (lit [0x7EED, 0x96C6])), Val (asc ''SEQUEL'')),
      (lit (asc ''sp''), Val (asc ''SP'')),
      (seqs [NoneOf [Rng 0x30 0x39], Group 1 (Atom Digit), Eol], Prefix (asc ''S''))]"

definition applyPattern :: "jstring \<Rightarrow> jstring list \<Rightarrow> re \<times> markerRule \<Rightarrow> jstring list" where
  \<comment> \<open>the body of \<open>patterns.forEach\<close>\<close>
  "applyPattern t markers p =
     (case regexMatch False (fst p) t of
        None \<Rightarrow> markers
      | Some g \<Rightarrow>
          (case snd p of
             Prefix pre \<Rightarrow> setAdd markers (pre @ digitsOf (parseInt (grp g 1)))
           | Val v \<Rightarrow> setAdd markers v))"

definition seasonCnNums :: "(jstring \<times> int) list" where
  \<comment> \<open>\<open>Object.entries(cnNums)\<close> of \<open>extractSeasonMarkers\<close>: U+4E00 (one) ... U+4E94
      (five), and \<open>final\<close>\<close>
  "seasonCnNums = [([0x4E00], 1), ([0x4E8C], 2), ([0x4E09], 3), ([0x56DB], 4), ([0x4E94], 5),
                   (asc ''final'', 99)]"

definition extractSeasonMarkers ::
    "(jstring \<Rightarrow> jstring) \<Rightarrow> jstring \<Rightarrow> jstring option \<Rightarrow> jstring list" where
  "extractSeasonMarkers simplized title typeDesc =
     (let t = cleanText simplized title;
          type = cleanText simplized (orEmpty typeDesc);
          markers = foldl (applyPattern t) [] seasonPatterns;
          markers = (if strIncludes type [0x5267, 0x573A, 0x7248] \<or> strIncludes type (asc ''movie'')
                        \<or> strIncludes type (asc ''film'') \<or> strIncludes type [0x7535, 0x5F71]
                     then setAdd markers (asc ''MOVIE'') else markers);
          markers = (if strIncludes type (asc ''ova'') \<or> strIncludes type (asc ''oad'')
                     then setAdd markers (asc ''OVA'') else markers);
          markers = (if strIncludes type (asc ''sp'') \<or> strIncludes type (asc ''special'')
                     then setAdd markers (asc ''SP'') else markers)
      in foldl (\<lambda>ms (cn, num).
                  if strIncludes t ([0x7B2C] @ cn @ [0x5B63])
                  then setAdd ms (asc ''S'' @ digitsOf num) else ms)
               markers seasonCnNums)"

definition getStrictMediaType :: "jstring \<Rightarrow> jstring option \<Rightarrow> jstring option" where
  \<comment> \<open>the tokens are U+7535 U+5F71 (film) and U+7535 U+89C6 U+5267 (television series)\<close>
  "getStrictMediaType title typeDesc =
     (let fullText = toLowerCase (title @ asc '' '' @ orEmpty typeDesc);
          hasMovie = strIncludes fullText [0x7535, 0x5F71];
          hasTV = strIncludes fullText [0x7535, 0x89C6, 0x5267]
      in if hasMovie \<and> \<not> hasTV then Some (asc ''MOVIE'')
         else if hasTV \<and> \<not> hasMovie then Some (asc ''TV'')
         else None)"

definition reYearTail :: re where
  \<comment> \<open>\<open>/(\(|\uFF08)\d{4}(\)|\uFF09).*$/i\<close>\<close>
  "reYearTail = seqs [Group 1 reLParen, Atom Digit, Atom Digit, Atom Digit, Atom Digit,
                      Group 2 reRParen, Star (Atom Dot), Eol]"

definition reFromTail :: re where
  \<comment> \<open>\<open>/\s*from\s+.*$/i\<close>\<close>
  "reFromTail = seqs [Star (Atom Space), lit (asc ''from''), Plus (Atom Space),
                      Star (Atom Dot), Eol]"

definition spaceStructureRegex :: re where
  \<comment> \<open>\<open>/.+[\s\u00A0\u3000].+/\<close>\<close>
  "spaceStructureRegex = seqs [Plus (Atom Dot), OneOf [Space, Ch 0xA0, Ch 0x3000],
                               Plus (Atom Dot)]"

definition lightCleanTheatrical :: "(jstring \<Rightarrow> jstring) \<Rightarrow> jstring \<Rightarrow> jstring" where
  \<comment> \<open>\<open>lightClean\<close> of \<open>checkTheatricalExemption\<close>\<close>
  "lightCleanTheatrical simplized str =
     (if str = [] then []
      else let s = simplized str;
               s = replaceFirst True reYearTail (\<lambda>g. []) s;
               s = replaceAll False reSourceTag (\<lambda>g. []) s;
               s = replaceFirst True reFromTail (\<lambda>g. []) s
           in trim s)"

definition checkTheatricalExemption ::
    "(jstring \<Rightarrow> jstring) \<Rightarrow> jstring \<Rightarrow> jstring \<Rightarrow> jstring option \<Rightarrow> jstring option \<Rightarrow> bool" where
  "checkTheatricalExemption simplized titleA titleB typeDescA typeDescB =
     (let isTheatrical = (strIncludes (orEmpty typeDescA) [0x5267, 0x573A, 0x7248]
                          \<or> strIncludes (orEmpty typeDescB) [0x5267, 0x573A, 0x7248])
      in if \<not> isTheatrical then False
         else let t1 = lightCleanTheatrical simplized titleA;
                  t2 = lightCleanTheatrical simplized titleB
              in regexTest False spaceStructureRegex t1 \<and> regexTest False spaceStructureRegex t2)"

definition checkMediaTypeMismatch ::
    "(jstring \<Rightarrow> jstring) \<Rightarrow> jstring \<Rightarrow> jstring \<Rightarrow> jstring option \<Rightarrow> jstring option
       \<Rightarrow> int \<Rightarrow> int \<Rightarrow> bool" where
  "checkMediaTypeMismatch simplized titleA titleB typeDescA typeDescB countA countB =
     (let mediaA = getStrictMediaType titleA typeDescA;
          mediaB = getStrictMediaType titleB typeDescB
      in if mediaA = None \<or> mediaB = None \<or> mediaA = mediaB then False
         else if checkTheatricalExemption simplized titleA titleB typeDescA typeDescB then False
         else let hasValidCounts = (countA > 0 \<and> countB > 0)
              in if hasValidCounts then
                   (let diff = \<bar>countA - countB\<bar> in if diff > 5 then True else False)
                 else True)"

fun seasonLoop :: "jstring list \<Rightarrow> jstring list \<Rightarrow> bool" where
  \<comment> \<open>\<open>for (const m of markersA)\<close> with its \<open>return true\<close>; \<open>false\<close> when it runs out\<close>
  "seasonLoop [] markersB = False"
| "seasonLoop (m # ms) markersB =
     (if startsWith m (asc ''S'') \<and> m \<notin> set markersB
         \<and> list_ex (\<lambda>b. startsWith b (asc ''S'')) markersB
      then True else seasonLoop ms markersB)"

definition checkSeasonMismatch ::
    "(jstring \<Rightarrow> jstring) \<Rightarrow> jstring \<Rightarrow> jstring \<Rightarrow> jstring option \<Rightarrow> jstring option \<Rightarrow> bool" where
  "checkSeasonMismatch simplized titleA titleB typeA typeB =
     (let markersA = extractSeasonMarkers simplized titleA typeA;
          markersB = extractSeasonMarkers simplized titleB typeB
      in if length markersA = 0 \<and> length markersB = 0 then False
         else if length markersA > 0 \<and> length markersB > 0 then seasonLoop markersA markersB
         else if length markersA \<noteq> length markersB then
           (if checkTheatricalExemption simplized titleA titleB typeA typeB then False else True)
         else False)"

definition hasSameSeasonMarker ::
    "(jstring \<Rightarrow> jstring) \<Rightarrow> jstring \<Rightarrow> jstring \<Rightarrow> jstring option \<Rightarrow> jstring option \<Rightarrow> bool" where
  "hasSameSeasonMarker simplized titleA titleB typeA typeB =
     (let markersA = extractSeasonMarkers simplized titleA typeA;
          markersB = extractSeasonMarkers simplized titleB typeB;
          seasonsA = filter (\<lambda>m. startsWith m (asc ''S'')) markersA;
          seasonsB = filter (\<lambda>m. startsWith m (asc ''S'')) markersB
      in if length seasonsA > 0 \<and> length seasonsB > 0
         then list_ex (\<lambda>sa. sa \<in> set seasonsB) seasonsA
         else False)"

subsection \<open>getSpecialEpisodeType\<close>

datatype specialType = Opening | Ending | Interview | Bloopers

definition getSpecialEpisodeType :: "jstring option \<Rightarrow> specialType option" where
  "getSpecialEpisodeType title =
     (case title of None \<Rightarrow> None
      | Some ti \<Rightarrow>
          if ti = [] then None
          else let t = toLowerCase ti
               in if strIncludes t (asc ''opening'') then Some Opening
                  else if strIncludes t (asc ''ending'') then Some Ending
                  else if strIncludes t (asc ''interview'') then Some Interview
                  else if strIncludes t (asc ''Bloopers'') then Some Bloopers
                  else None)"

subsection \<open>Episode alignment\<close>

record episodeInfo =
  isMovie :: bool
  num :: "rat option"
  isSpecial :: bool

record link =
  \<comment> \<open>an episode link \<open>{ title, name, url }\<close>; \<open>url\<close> is a string\<close>
  link_title :: "jstring option"
  link_name :: "jstring option"
  link_url :: jstring

record item =
  \<comment> \<open>an element of the result of \<open>filterEpisodes\<close>: \<open>{ link, originalIndex }\<close>\<close>
  item_link :: link
  originalIndex :: nat

definition parseFloat :: "jstring \<Rightarrow> rat" where
  \<comment> \<open>\<open>parseFloat\<close> of what \<open>(\d+(\.\d+)?)\<close> captures, as the exact decimal\<close>
  "parseFloat s =
     (let whole = takeWhile isDigit s; rest = dropWhile isDigit s
      in case rest of
           [] \<Rightarrow> of_int (parseInt whole)
         | dot # digits \<Rightarrow> of_int (parseInt whole) + of_int (parseInt digits) / 10 ^ length digits)"

definition reIsMovie :: re where
  \<comment> \<open>\<open>/\u5267\u573A\u7248|movie|film/i\<close>\<close>
  "reIsMovie = alts [lit [0x5267, 0x573A, 0x7248], lit (asc ''movie''), lit (asc ''film'')]"

definition reIsSpecial :: re where
  \<comment> \<open>\<open>/^(s|o|sp|special)\d/i\<close>\<close>
  "reIsSpecial = seqs [Bol, Group 1 (alts [lit (asc ''s''), lit (asc ''o''), lit (asc ''sp''),
                                           lit (asc ''special'')]), Atom Digit]"

definition reNumber :: re where
  \<comment> \<open>\<open>(\d+(\.\d+)?)\<close>\<close>
  "reNumber = Group 1 (Seq (Plus (Atom Digit))
                           (Opt (Group 2 (Seq (Atom (Ch 0x2E)) (Plus (Atom Digit))))))"

definition reStrongPrefix :: re where
  \<comment> \<open>\<open>/(?:ep|o|s|part|\u7B2C)\s*(\d+(\.\d+)?)/i\<close>\<close>
  "reStrongPrefix = seqs [alts [lit (asc ''ep''), lit (asc ''o''), lit (asc ''s''),
                                lit (asc ''part''), Atom (Ch 0x7B2C)],
                          Star (Atom Space), reNumber]"

definition reWeakPrefix :: re where
  \<comment> \<open>\<open>/(?:^|\s)(\d+(\.\d+)?)(?:\u8BDD|\u96C6|\s|$)/\<close>\<close>
  "reWeakPrefix = seqs [Alt Bol (Atom Space), reNumber,
                        alts [Atom (Ch 0x8BDD), Atom (Ch 0x96C6), Atom Space, Eol]]"

definition extractEpisodeInfo :: "(jstring \<Rightarrow> jstring) \<Rightarrow> jstring option \<Rightarrow> episodeInfo" where
  "extractEpisodeInfo simplized title =
     (let t = cleanText simplized (orEmpty title);
          isMovie = regexTest True reIsMovie t;
          isSpecial = regexTest True reIsSpecial t;
          num = (case regexMatch True reStrongPrefix t of
                   Some g \<Rightarrow> Some (parseFloat (grp g 1))
                 | None \<Rightarrow>
                     (case regexMatch False reWeakPrefix t of
                        Some g \<Rightarrow> Some (parseFloat (grp g 1))
                      | None \<Rightarrow> None))
      in \<lparr> isMovie = isMovie, num = num, isSpecial = isSpecial \<rparr>)"

definition minNormal :: "(jstring \<Rightarrow> jstring) \<Rightarrow> item list \<Rightarrow> rat option" where
  \<comment> \<open>the loops that compute \<open>minNormalA\<close> and \<open>minNormalB\<close>\<close>
  "minNormal simplized links =
     foldl (\<lambda>m it.
              let info = extractEpisodeInfo simplized (link_title (item_link it))
              in case num info of
                   None \<Rightarrow> m
                 | Some n \<Rightarrow>
                     if \<not> isSpecial info then
                       (case m of None \<Rightarrow> Some n | Some v \<Rightarrow> if n < v then Some n else m)
                     else m)
           None links"

definition numOrZero :: "rat option \<Rightarrow> rat" where
  \<comment> \<open>\<open>null\<close> in a subtraction is 0\<close>
  "numOrZero n = (case n of None \<Rightarrow> 0 | Some v \<Rightarrow> v)"

definition toFixed4 :: "rat \<Rightarrow> bool \<times> int" where
  \<comment> \<open>the key \<open>diff.toFixed(4)\<close> for \<open>|diff| < 10^21\<close>: the sign that is printed, and the
      digits as the integer nearest to \<open>|diff| * 10^4\<close> (the larger one of two);
      \<open>"0.0000"\<close> is \<open>(False, 0)\<close>\<close>
  "toFixed4 x = (x < 0, \<lfloor>\<bar>x\<bar> * 10000 + 1 / 2\<rfloor>)"

type_synonym diffMap = "((bool \<times> int) \<times> nat) list"

record scan =
  \<comment> \<open>the variables of one offset\<close>
  totalTextScore :: rat
  rawTextScoreSum :: rat
  matchCount :: nat
  numericDiffs :: diffMap

definition getOr0 :: "diffMap \<Rightarrow> bool \<times> int \<Rightarrow> nat" where
  \<comment> \<open>\<open>numericDiffs.get(key) || 0\<close>\<close>
  "getOr0 m k = (case map_of m k of None \<Rightarrow> 0 | Some c \<Rightarrow> c)"

definition pairStep ::
    "(jstring \<Rightarrow> jstring) \<Rightarrow> item list \<Rightarrow> item list \<Rightarrow> rat option \<Rightarrow> int \<Rightarrow> scan \<Rightarrow> nat \<Rightarrow> scan" where
  \<comment> \<open>the body of \<open>for (let i = 0; i < secondaryLinks.length; i++)\<close>\<close>
  "pairStep simplized primaryLinks secondaryLinks seasonShift offset st i =
     (let pIndex = int i + offset
      in if pIndex \<ge> 0 \<and> pIndex < int (length primaryLinks) then
           (let titleA = orEmpty (link_title (item_link (primaryLinks ! nat pIndex)));
                titleB = orEmpty (link_title (item_link (secondaryLinks ! i)));
                infoA = extractEpisodeInfo simplized (Some titleA);
                infoB = extractEpisodeInfo simplized (Some titleB);
                pairScore = 0;
                pairScore = (if isMovie infoA \<noteq> isMovie infoB then pairScore - 5 else pairScore);
                specialTypeA = getSpecialEpisodeType (Some titleA);
                specialTypeB = getSpecialEpisodeType (Some titleB);
                pairScore = (if specialTypeA \<noteq> None \<or> specialTypeB \<noteq> None then
                               (if specialTypeA \<noteq> specialTypeB then pairScore - 10
                                else pairScore + 3)
                             else pairScore);
                pairScore = (if isSpecial infoA = isSpecial infoB then pairScore + 3 else pairScore);
                pairScore = (if seasonShift \<noteq> None \<and> \<not> isSpecial infoA \<and> \<not> isSpecial infoB
                                \<and> Some (numOrZero (num infoA) - numOrZero (num infoB)) = seasonShift
                             then pairScore + 5 else pairScore);
                sim = calculateSimilarity simplized titleA titleB;
                pairScore = pairScore + sim;
                rawTextScoreSum = rawTextScoreSum st + sim;
                pairScore = (if num infoA \<noteq> None \<and> num infoB \<noteq> None \<and> num infoA = num infoB
                             then pairScore + 2 else pairScore);
                totalTextScore = totalTextScore st + pairScore;
                numericDiffs =
                  (case (num infoA, num infoB) of
                     (Some a, Some b) \<Rightarrow>
                       (let diffKey = toFixed4 (b - a);
                            count = getOr0 (numericDiffs st) diffKey
                        in AList.update diffKey (count + 1) (numericDiffs st))
                   | _ \<Rightarrow> numericDiffs st)
            in \<lparr> totalTextScore = totalTextScore, rawTextScoreSum = rawTextScoreSum,
                 matchCount = matchCount st + 1, numericDiffs = numericDiffs \<rparr>)
         else st)"

definition offsetScore ::
    "(jstring \<Rightarrow> jstring) \<Rightarrow> item list \<Rightarrow> item list \<Rightarrow> rat option \<Rightarrow> int \<Rightarrow> rat option" where
  \<comment> \<open>the body of the loop over \<open>offset\<close> up to \<open>finalScore\<close>; \<open>None\<close> when \<open>matchCount\<close> is 0\<close>
  "offsetScore simplized primaryLinks secondaryLinks seasonShift offset =
     (let st = foldl (pairStep simplized primaryLinks secondaryLinks seasonShift offset)
                 \<lparr> totalTextScore = 0, rawTextScoreSum = 0, matchCount = 0, numericDiffs = [] \<rparr>
                 [0 ..< length secondaryLinks]
      in if matchCount st > 0 then
           (let finalScore = totalTextScore st / of_nat (matchCount st);
                maxFrequency = foldl (\<lambda>m c. if c > m then c else m) 0 (map snd (numericDiffs st));
                consistencyRatio = (of_nat maxFrequency :: rat) / of_nat (matchCount st);
                avgRawTextScore = rawTextScoreSum st / of_nat (matchCount st);
                finalScore = (if consistencyRatio > 6 / 10 \<and> avgRawTextScore > 33 / 100
                              then finalScore + 2 else finalScore);
                coverageBonus = min (of_nat (matchCount st) * (15 / 100)) (15 / 10);
                finalScore = finalScore + coverageBonus;
                zeroDiffCount = getOr0 (numericDiffs st) (False, 0);
                finalScore = (if zeroDiffCount > 0 then finalScore + of_nat zeroDiffCount * 2
                              else finalScore)
            in Some finalScore)
         else None)"

definition selectStep :: "(int \<Rightarrow> rat option) \<Rightarrow> int \<times> rat \<Rightarrow> int \<Rightarrow> int \<times> rat" where
  \<comment> \<open>\<open>if (finalScore > maxScore) { maxScore = finalScore; bestOffset = offset; }\<close> on the
      pair \<open>(bestOffset, maxScore)\<close>\<close>
  "selectStep score bm offset =
     (case score offset of
        None \<Rightarrow> bm
      | Some finalScore \<Rightarrow> if finalScore > snd bm then (offset, finalScore) else bm)"

definition maxShiftOf :: "item list \<Rightarrow> item list \<Rightarrow> int" where
  "maxShiftOf primaryLinks secondaryLinks =
     min (max (int (length primaryLinks)) (int (length secondaryLinks))) 15"

definition seasonShiftOf :: "(jstring \<Rightarrow> jstring) \<Rightarrow> item list \<Rightarrow> item list \<Rightarrow> rat option" where
  \<comment> \<open>\<open>seasonShift\<close>: \<open>minNormalA - minNormalB\<close>, or \<open>null\<close> when one of them is \<open>null\<close>\<close>
  "seasonShiftOf simplized primaryLinks secondaryLinks =
     (let minNormalA = minNormal simplized primaryLinks;
          minNormalB = minNormal simplized secondaryLinks
      in case (minNormalA, minNormalB) of
           (Some a, Some b) \<Rightarrow> Some (a - b) | _ \<Rightarrow> None)"

definition findBestAlignmentOffset ::
    "(jstring \<Rightarrow> jstring) \<Rightarrow> item list \<Rightarrow> item list \<Rightarrow> int" where
  "findBestAlignmentOffset simplized primaryLinks secondaryLinks =
     (if length primaryLinks = 0 \<or> length secondaryLinks = 0 then 0
      else let seasonShift = seasonShiftOf simplized primaryLinks secondaryLinks;
               maxShift = maxShiftOf primaryLinks secondaryLinks;
               (bestOffset, maxScore) =
                 foldl (selectStep (offsetScore simplized primaryLinks secondaryLinks seasonShift))
                   (0, - 999) [- maxShift .. maxShift]
           in if maxScore > 3 / 10 then bestOffset else 0)"

subsection \<open>Matching a secondary entry\<close>

record anime =
  animeId :: idValue
  bangumiId :: jstring
  animeTitle :: jstring
  source :: jstring
  startDate :: "jstring option"
  typeDescription :: "jstring option"
  episodeCount :: "int option"
  links :: "link list option"
  isMerged :: bool  \<comment> \<open>the property \<open>_isMerged\<close>\<close>

definition reSuffixNote :: re where
  \<comment> \<open>\<open>/(\(|\uFF08)(\u7EED\u7BC7|TV\u7248|\u65E0\u4FEE|\u672A\u5220\u51CF|\u5B8C\u6574\u7248)(\)|\uFF09)/gi\<close>\<close>
  "reSuffixNote = seqs [Group 1 reLParen,
       Group 2 (alts [lit [0x7EED, 0x7BC7], lit (asc ''TV'' @ [0x7248]), lit [0x65E0, 0x4FEE],
                      lit [0x672A, 0x5220, 0x51CF], lit [0x5B8C, 0x6574, 0x7248]]),
       Group 3 reRParen]"

definition separatorRegex :: re where
  \<comment> \<open>\<open>/^[\s:\uFF1A\-\u2013\u2014(\uFF08\[\u3010]/\<close>\<close>
  "separatorRegex = seqs [Bol, OneOf [Space, Ch 0x3A, Ch 0xFF1A, Ch 0x2D, Ch 0x2013, Ch 0x2014,
                                      Ch 0x28, Ch 0xFF08, Ch 0x5B, Ch 0x3010]]"

definition lightCleanSubtitle :: "(jstring \<Rightarrow> jstring) \<Rightarrow> jstring \<Rightarrow> jstring" where
  \<comment> \<open>\<open>lightClean\<close> of \<open>checkTitleSubtitleConflict\<close>\<close>
  "lightCleanSubtitle simplized str =
     (if str = [] then []
      else let s = simplized str;
               s = replaceAll True reSuffixNote (\<lambda>g. []) s;
               s = replaceFirst True reYearTail (\<lambda>g. []) s;
               s = replaceAll False reSourceTag (\<lambda>g. []) s;
               s = replaceFirst True reFromTail (\<lambda>g. []) s
           in toLowerCase (trim s))"

definition checkTitleSubtitleConflict :: "(jstring \<Rightarrow> jstring) \<Rightarrow> jstring \<Rightarrow> jstring \<Rightarrow> bool" where
  "checkTitleSubtitleConflict simplized titleA titleB =
     (if titleA = [] \<or> titleB = [] then False
      else let t1 = lightCleanSubtitle simplized titleA;
               t2 = lightCleanSubtitle simplized titleB
           in if t1 = t2 then False
              else let short = (if length t1 < length t2 then t1 else t2);
                       long = (if length t1 < length t2 then t2 else t1)
                   in if startsWith long short then
                        (if length long = length short then False
                         else let nextChar = [long ! length short]
                              in if regexTest False separatorRegex nextChar then
                                   (let subtitle = trim (replaceFirst False separatorRegex (\<lambda>g. [])
                                                           (drop (length short) long))
                                    in if length subtitle > 2 then True else False)
                                 else False)
                      else False)"

definition parseDate :: "(jstring \<Rightarrow> (int \<times> int) option) \<Rightarrow> jstring option \<Rightarrow> int option \<times> int option" where
  \<comment> \<open>\<open>dateOf\<close> is \<open>new Date(dateStr)\<close> of the runtime: \<open>None\<close> for an invalid date, else
      \<open>getFullYear()\<close> and \<open>getMonth()\<close>.  The result is the pair \<open>(year, month)\<close>.\<close>
  "parseDate dateOf dateStr =
     (case dateStr of
        None \<Rightarrow> (None, None)
      | Some s \<Rightarrow>
          if s = [] then (None, None)
          else (case dateOf s of
                  None \<Rightarrow> (None, None)
                | Some (y, m) \<Rightarrow> (Some y, Some (m + 1))))"

definition checkDateMatch :: "int option \<times> int option \<Rightarrow> int option \<times> int option \<Rightarrow> rat" where
  \<comment> \<open>a date is the pair \<open>(year, month)\<close>; \<open>!x\<close> holds of \<open>null\<close> and of 0\<close>
  "checkDateMatch dateA dateB =
     (case (fst dateA, fst dateB) of
        (Some yearA, Some yearB) \<Rightarrow>
          if yearA = 0 \<or> yearB = 0 then 0
          else let yearDiff = \<bar>yearA - yearB\<bar>
               in if yearDiff > 1 then - 1
                  else if yearDiff = 0 then
                    (case (snd dateA, snd dateB) of
                       (Some monthA, Some monthB) \<Rightarrow>
                         if monthA \<noteq> 0 \<and> monthB \<noteq> 0 then
                           (let monthDiff = \<bar>monthA - monthB\<bar>
                            in if monthDiff > 2 then 0
                               else if monthDiff = 0 then 2 / 10 else 1 / 10)
                         else 1 / 10
                     | _ \<Rightarrow> 1 / 10)
                  else 0
      | _ \<Rightarrow> 0)"

definition isMergeRatioValid :: "nat \<Rightarrow> nat \<Rightarrow> nat \<Rightarrow> jstring \<Rightarrow> jstring \<Rightarrow> bool" where
  "isMergeRatioValid mergedCount totalA totalB sourceA sourceB =
     (if sourceA = asc ''animeko'' \<or> sourceB = asc ''animeko'' then True
      else let maxTotal = max totalA totalB
           in if maxTotal = 0 then False
              else let ratio = (of_nat mergedCount :: rat) / of_nat maxTotal
                   in if maxTotal > 5 \<and> ratio < 18 / 100 then False else True)"

definition reYearTailAscii :: re where
  \<comment> \<open>\<open>/\(\d{4}\).*$/\<close>\<close>
  "reYearTailAscii = seqs [Atom (Ch 0x28), Atom Digit, Atom Digit, Atom Digit, Atom Digit,
                           Atom (Ch 0x29), Star (Atom Dot), Eol]"

definition reTypeTag :: re where
  \<comment> \<open>\<open>/\u3010(\u7535\u5F71|\u7535\u89C6\u5267)\u3011/g\<close>\<close>
  "reTypeTag = seqs [Atom (Ch 0x3010),
                     Group 1 (Alt (lit [0x7535, 0x5F71]) (lit [0x7535, 0x89C6, 0x5267])),
                     Atom (Ch 0x3011)]"

definition titleForSim :: "jstring \<Rightarrow> jstring" where
  \<comment> \<open>how \<open>primaryTitleForSim\<close> and \<open>secTitleForSim\<close> are made from the raw title\<close>
  "titleForSim raw =
     trim (replaceAll False reTypeTag (\<lambda>g. []) (replaceFirst False reYearTailAscii (\<lambda>g. []) raw))"

definition countOf :: "anime \<Rightarrow> int" where
  \<comment> \<open>\<open>a.episodeCount || (a.links ? a.links.length : 0)\<close>\<close>
  "countOf a =
     (let byLinks = (case links a of None \<Rightarrow> 0 | Some ls \<Rightarrow> int (length ls))
      in case episodeCount a of
           None \<Rightarrow> byLinks
         | Some n \<Rightarrow> if n = 0 then byLinks else n)"

definition matchStep ::
    "(jstring \<Rightarrow> jstring) \<Rightarrow> (jstring \<Rightarrow> (int \<times> int) option) \<Rightarrow> anime
       \<Rightarrow> anime option \<times> rat \<Rightarrow> anime \<Rightarrow> anime option \<times> rat" where
  \<comment> \<open>the body of \<open>for (const secAnime of secondaryList)\<close> on \<open>(bestMatch, maxScore)\<close>\<close>
  "matchStep simplized dateOf primaryAnime bm secAnime =
     (let rawPrimaryTitle = animeTitle primaryAnime;
          primaryTitleForSim = titleForSim rawPrimaryTitle;
          primaryDate = parseDate dateOf (startDate primaryAnime);
          primaryCount = countOf primaryAnime;
          rawSecTitle = animeTitle secAnime;
          secDate = parseDate dateOf (startDate secAnime);
          secTitleForSim = titleForSim rawSecTitle;
          secCount = countOf secAnime
      in if checkMediaTypeMismatch simplized rawPrimaryTitle rawSecTitle
              (typeDescription primaryAnime) (typeDescription secAnime) primaryCount secCount
         then bm
         else let hasStructureConflict =
                    checkTitleSubtitleConflict simplized rawPrimaryTitle rawSecTitle;
                  isSeasonExactMatch =
                    hasSameSeasonMarker simplized primaryTitleForSim secTitleForSim
                      (typeDescription primaryAnime) (typeDescription secAnime);
                  dateScore = checkDateMatch primaryDate secDate
              in if \<not> isSeasonExactMatch \<and> dateScore = - 1 then bm
                 else if checkSeasonMismatch simplized primaryTitleForSim secTitleForSim
                           (typeDescription primaryAnime) (typeDescription secAnime)
                 then bm
                 else let scoreFull = calculateSimilarity simplized primaryTitleForSim secTitleForSim;
                          baseA = removeParentheses primaryTitleForSim;
                          baseB = removeParentheses secTitleForSim;
                          scoreBase = calculateSimilarity simplized baseA baseB;
                          score = max scoreFull scoreBase;
                          score = (if hasStructureConflict then score - 15 / 100 else score);
                          score = (if dateScore \<noteq> - 1 then score + dateScore else score)
                      in if score > snd bm then (Some secAnime, score) else bm)"

definition findSecondaryMatch ::
    "(jstring \<Rightarrow> jstring) \<Rightarrow> (jstring \<Rightarrow> (int \<times> int) option) \<Rightarrow> anime \<Rightarrow> anime list
       \<Rightarrow> anime option" where
  "findSecondaryMatch simplized dateOf primaryAnime secondaryList =
     (if secondaryList = [] then None
      else let (bestMatch, maxScore) =
                 foldl (matchStep simplized dateOf primaryAnime) (None, 0) secondaryList
           in if maxScore \<ge> 6 / 10 then bestMatch else None)"

subsection \<open>applyMergeLogic\<close>

definition MERGE_DELIMITER :: jstring where
  "MERGE_DELIMITER = asc ''$$$''"

definition DISPLAY_CONNECTOR :: jstring where
  "DISPLAY_CONNECTOR = asc ''&''"

fun beforeDelimiter :: "jstring \<Rightarrow> jstring \<Rightarrow> jstring" where
  \<comment> \<open>\<open>s.split(d)[0]\<close> for a non-empty \<open>d\<close>\<close>
  "beforeDelimiter d [] = []"
| "beforeDelimiter d (c # cs) = (if startsWith (c # cs) d then [] else c # beforeDelimiter d cs)"

definition reSourceId :: re where
  \<comment> \<open>\<open>/^([^:]+):(.+)$/\<close>\<close>
  "reSourceId = seqs [Bol, Group 1 (Plus (NoneOf [Ch 0x3A])), Atom (Ch 0x3A),
                      Group 2 (Plus (Atom Dot)), Eol]"

definition reHttp :: re where
  \<comment> \<open>\<open>/^https?:\/\//i\<close>\<close>
  "reHttp = seqs [Bol, lit (asc ''http''), Opt (Atom (Ch 0x73)), lit (asc ''://'')]"

definition sanitizeUrl :: "jstring \<Rightarrow> jstring" where
  "sanitizeUrl urlStr =
     (if urlStr = [] then []
      else let clean = trim (beforeDelimiter MERGE_DELIMITER urlStr)
           in if startsWith clean (asc ''//'') then asc ''https:'' @ clean
              else (case regexMatch False reSourceId clean of
                      Some g \<Rightarrow>
                        (let prefix = toLowerCase (grp g 1);
                             body = grp g 2
                         in if prefix = asc ''http'' \<or> prefix = asc ''https'' then clean
                            else if regexTest True reHttp body then body
                            else if startsWith body (asc ''//'') then asc ''https:'' @ body
                            else body)
                    | None \<Rightarrow> clean))"

definition filterEpisodes :: "link list option \<Rightarrow> (jstring \<Rightarrow> bool) option \<Rightarrow> item list" where
  \<comment> \<open>the filter is the compiled pattern, given by its \<open>test\<close>\<close>
  "filterEpisodes ls filterRegex =
     (case ls of
        None \<Rightarrow> []
      | Some lks \<Rightarrow>
          (let indexed = map (\<lambda>(l, i). \<lparr> item_link = l, originalIndex = i \<rparr>)
                             (zip lks [0 ..< length lks])
           in case filterRegex of
                None \<Rightarrow> indexed
              | Some test \<Rightarrow>
                  filter (\<lambda>it. let t = (case link_title (item_link it) of
                                         Some x \<Rightarrow> if x \<noteq> [] then x else orEmpty (link_name (item_link it))
                                       | None \<Rightarrow> orEmpty (link_name (item_link it)))
                                in \<not> test t) indexed))"

definition reSourceLabel :: re where
  \<comment> \<open>\<open>/^\u3010([^\u3011\d]+)(?:\d*)\u3011/\<close>\<close>
  "reSourceLabel = seqs [Bol, Atom (Ch 0x3010), Group 1 (Plus (NoneOf [Ch 0x3011, Digit])),
                         Star (Atom Digit), Atom (Ch 0x3011)]"

definition reTitleLabel :: re where
  \<comment> \<open>\<open>/^\u3010([^\u3011]+)\u3011/\<close>\<close>
  "reTitleLabel = seqs [Bol, Atom (Ch 0x3010), Group 1 (Plus (NoneOf [Ch 0x3011])),
                        Atom (Ch 0x3011)]"

definition fuseLink :: "jstring \<Rightarrow> jstring \<Rightarrow> link \<Rightarrow> link \<Rightarrow> link" where
  \<comment> \<open>the statements under "ID" and "title" of the merge loop: the new \<open>targetLink\<close>\<close>
  "fuseLink currentPrimarySource secSource sourceLink targetLink =
     (let idB = sanitizeUrl (link_url sourceLink);
          currentUrl = link_url targetLink;
          secPart = secSource @ asc '':'' @ idB;
          currentUrl =
            (if \<not> strIncludes currentUrl MERGE_DELIMITER then
               (if \<not> startsWith currentUrl (currentPrimarySource @ asc '':'')
                then currentPrimarySource @ asc '':'' @ currentUrl else currentUrl)
             else currentUrl);
          newUrl = currentUrl @ MERGE_DELIMITER @ secPart;
          newTitle =
            (case link_title targetLink of
               None \<Rightarrow> None
             | Some t \<Rightarrow>
                 if t = [] then Some t
                 else let sLabel =
                            (case link_title sourceLink of
                               None \<Rightarrow> secSource
                             | Some st \<Rightarrow>
                                 if st = [] then secSource
                                 else (case regexMatch False reSourceLabel st of
                                         Some g \<Rightarrow> trim (grp g 1)
                                       | None \<Rightarrow> secSource))
                      in Some (replaceFirst False reTitleLabel
                                 (\<lambda>g. [0x3010] @ grp g 1 @ DISPLAY_CONNECTOR @ sLabel @ [0x3011]) t))
      in targetLink \<lparr> link_url := newUrl, link_title := newTitle \<rparr>)"

definition mergeStep ::
    "jstring \<Rightarrow> jstring \<Rightarrow> item list \<Rightarrow> int \<Rightarrow> link list \<times> nat \<Rightarrow> nat \<Rightarrow> link list \<times> nat" where
  \<comment> \<open>the body of \<open>for (let k = 0; k < filteredMLinksWithIndex.length; k++)\<close> on
      \<open>(derivedAnime.links, mergedCount)\<close>; the entries for the log are left out\<close>
  "mergeStep currentPrimarySource secSource filteredM offset st k =
     (let pIndex = int k + offset;
          sourceLink = item_link (filteredM ! k);
          dlinks = fst st
      in if pIndex \<ge> 0 \<and> pIndex < int (length dlinks) then
           (let targetLink = dlinks ! nat pIndex;
                specialP = getSpecialEpisodeType (link_title targetLink);
                specialS = getSpecialEpisodeType (link_title sourceLink)
            in if specialP \<noteq> specialS then st
               else (dlinks [nat pIndex := fuseLink currentPrimarySource secSource sourceLink targetLink],
                     snd st + 1))
         else st)"

record mergeSets =
  groupConsumedIds :: "idValue list"
  globalConsumedIds :: "idValue list"
  generatedSignatures :: "jstring list"
  newMergedAnimes :: "anime list"
  addedAnimes :: "anime list"  \<comment> \<open>the calls of \<open>addAnime\<close>, in order\<close>

record derivation =
  derivedAnime :: anime
  actualMergedSources :: "jstring list"
  contentSignatureParts :: "idValue list"
  hasMergedAny :: bool

record mergeGroup =
  primary :: jstring
  secondaries :: "jstring list"

record globals =
  \<comment> \<open>what \<open>applyMergeLogic\<close> reads of \<open>globals\<close>.  \<open>episodeTitleFilter\<close> is the value of
      \<open>epFilter\<close> after the first statements of the function: the compiled pattern, given
      by its \<open>test\<close>, or \<open>null\<close> (also for a string that does not compile).\<close>
  mergeSourcePairs :: "mergeGroup list"
  episodeTitleFilter :: "(jstring \<Rightarrow> bool) option"
  animes :: "anime list"

definition findCached :: "globals \<Rightarrow> idValue \<Rightarrow> anime option" where
  \<comment> \<open>\<open>globals.animes.find(a => String(a.animeId) === String(id))\<close>\<close>
  "findCached g i = find (\<lambda>a. idToString (animeId a) = idToString i) (animes g)"

definition mergeAttempt ::
    "(jstring \<Rightarrow> jstring) \<Rightarrow> globals \<Rightarrow> jstring \<Rightarrow> jstring \<Rightarrow> jstring \<Rightarrow> anime \<Rightarrow> link list
       \<Rightarrow> derivation \<times> mergeSets \<Rightarrow> derivation \<times> mergeSets" where
  \<comment> \<open>what is done with a match whose cached entry has links \<open>mlinks\<close>: alignment, the new
      id, the merge loop and the final check of the coverage\<close>
  "mergeAttempt simplized g groupFingerprint currentPrimarySource secSource match mlinks ds =
     (let d = fst ds; sets = snd ds;
          filteredPLinksWithIndex = filterEpisodes (links (derivedAnime d)) (episodeTitleFilter g);
          filteredMLinksWithIndex = filterEpisodes (Some mlinks) (episodeTitleFilter g);
          offset = findBestAlignmentOffset simplized filteredPLinksWithIndex filteredMLinksWithIndex;
          newId = IdNum (generateSafeMergedId (animeId (derivedAnime d)) (animeId match)
                           groupFingerprint);
          (dlinks, mergedCount) =
            foldl (mergeStep currentPrimarySource secSource filteredMLinksWithIndex offset)
              (case links (derivedAnime d) of None \<Rightarrow> [] | Some l \<Rightarrow> l, 0)
              [0 ..< length filteredMLinksWithIndex];
          derived = (derivedAnime d) \<lparr> animeId := newId, bangumiId := idToString newId,
                                      links := Some dlinks \<rparr>
      in if mergedCount > 0 then
           (if isMergeRatioValid mergedCount (length filteredPLinksWithIndex)
                 (length filteredMLinksWithIndex) currentPrimarySource secSource
            then (d \<lparr> derivedAnime := derived,
                      hasMergedAny := True,
                      actualMergedSources := actualMergedSources d @ [secSource],
                      contentSignatureParts := contentSignatureParts d @ [animeId match] \<rparr>,
                  sets \<lparr> groupConsumedIds := setAdd (groupConsumedIds sets) (animeId match),
                         globalConsumedIds := setAdd (globalConsumedIds sets) (animeId match) \<rparr>)
            else (d \<lparr> derivedAnime := derived \<rparr>, sets))
         else (d \<lparr> derivedAnime := derived \<rparr>, sets))"

definition trySecondary ::
    "(jstring \<Rightarrow> jstring) \<Rightarrow> (jstring \<Rightarrow> (int \<times> int) option) \<Rightarrow> globals \<Rightarrow> anime list
       \<Rightarrow> jstring \<Rightarrow> jstring \<Rightarrow> anime \<Rightarrow> derivation \<times> mergeSets \<Rightarrow> jstring
       \<Rightarrow> derivation \<times> mergeSets" where
  \<comment> \<open>the body of \<open>for (const secSource of availableSecondaries)\<close>\<close>
  "trySecondary simplized dateOf g curAnimes groupFingerprint currentPrimarySource pAnime ds secSource =
     (let secondaryItems =
            filter (\<lambda>a. source a = secSource \<and> animeId a \<notin> set (groupConsumedIds (snd ds)))
                   curAnimes
      in if secondaryItems = [] then ds
         else (case findSecondaryMatch simplized dateOf pAnime secondaryItems of
                 None \<Rightarrow> ds
               | Some match \<Rightarrow>
                   (case findCached g (animeId match) of
                      None \<Rightarrow> ds
                    | Some cachedMatch \<Rightarrow>
                        (case links cachedMatch of
                           None \<Rightarrow> ds
                         | Some mlinks \<Rightarrow>
                             mergeAttempt simplized g groupFingerprint currentPrimarySource
                               secSource match mlinks ds))))"

fun joinWith :: "jstring \<Rightarrow> jstring list \<Rightarrow> jstring" where
  \<comment> \<open>\<open>Array.prototype.join\<close>\<close>
  "joinWith sep [] = []"
| "joinWith sep [x] = x"
| "joinWith sep (x # xs) = x @ sep @ joinWith sep xs"

fun replaceLiteral :: "jstring \<Rightarrow> jstring \<Rightarrow> jstring \<Rightarrow> jstring" where
  \<comment> \<open>\<open>s.replace(pat, rep)\<close> for a string \<open>pat\<close>: its first occurrence (the replacement
      strings of this module hold no \<open>$\<close>)\<close>
  "replaceLiteral pat rep [] = (if pat = [] then rep else [])"
| "replaceLiteral pat rep (c # cs) =
     (if startsWith (c # cs) pat then rep @ drop (length pat) (c # cs)
      else c # replaceLiteral pat rep cs)"

definition processPrimary ::
    "(jstring \<Rightarrow> jstring) \<Rightarrow> (jstring \<Rightarrow> (int \<times> int) option) \<Rightarrow> globals \<Rightarrow> anime list
       \<Rightarrow> jstring \<Rightarrow> jstring \<Rightarrow> jstring list \<Rightarrow> mergeSets \<Rightarrow> anime \<Rightarrow> mergeSets" where
  \<comment> \<open>the body of \<open>for (const pAnime of primaryItems)\<close>\<close>
  "processPrimary simplized dateOf g curAnimes groupFingerprint currentPrimarySource
       availableSecondaries sets pAnime =
     (case findCached g (animeId pAnime) of
        None \<Rightarrow> sets
      | Some cachedPAnime \<Rightarrow>
          (case links cachedPAnime of
             None \<Rightarrow> sets
           | Some cachedLinks \<Rightarrow>
               (let d0 = \<lparr> derivedAnime = cachedPAnime, actualMergedSources = [],
                            contentSignatureParts = [animeId pAnime], hasMergedAny = False \<rparr>;
                    (d, sets1) =
                      foldl (trySecondary simplized dateOf g curAnimes groupFingerprint
                               currentPrimarySource pAnime)
                        (d0, sets) availableSecondaries
                in if hasMergedAny d then
                     (let signature = joinWith (asc ''|'') (map idToString (contentSignatureParts d))
                      in if signature \<in> set (generatedSignatures sets1) then sets1
                         else let joinedSources = joinWith DISPLAY_CONNECTOR (actualMergedSources d);
                                  derived = (derivedAnime d)
                                    \<lparr> animeTitle :=
                                        replaceLiteral (asc ''from '' @ currentPrimarySource)
                                          (asc ''from '' @ currentPrimarySource @ DISPLAY_CONNECTOR
                                             @ joinedSources)
                                          (animeTitle (derivedAnime d)),
                                      source := currentPrimarySource \<rparr>
                              in sets1 \<lparr> generatedSignatures := setAdd (generatedSignatures sets1) signature,
                                         addedAnimes := addedAnimes sets1 @ [derived],
                                         newMergedAnimes := newMergedAnimes sets1 @ [derived],
                                         groupConsumedIds := setAdd (groupConsumedIds sets1) (animeId pAnime),
                                         globalConsumedIds := setAdd (globalConsumedIds sets1) (animeId pAnime) \<rparr>)
                   else sets1)))"

definition rotationStep ::
    "(jstring \<Rightarrow> jstring) \<Rightarrow> (jstring \<Rightarrow> (int \<times> int) option) \<Rightarrow> globals \<Rightarrow> anime list
       \<Rightarrow> jstring list \<Rightarrow> mergeSets \<Rightarrow> nat \<Rightarrow> mergeSets" where
  \<comment> \<open>the body of \<open>for (let i = 0; i < fullPriorityList.length - 1; i++)\<close>\<close>
  "rotationStep simplized dateOf g curAnimes fullPriorityList sets i =
     (let currentPrimarySource = fullPriorityList ! i;
          availableSecondaries = drop (i + 1) fullPriorityList;
          groupFingerprint = joinWith (asc ''&'') fullPriorityList;
          allSourceItems = filter (\<lambda>a. source a = currentPrimarySource) curAnimes
      in if length allSourceItems = 0 then sets
         else let primaryItems =
                    filter (\<lambda>a. animeId a \<notin> set (groupConsumedIds sets)) allSourceItems
              in if length primaryItems = 0 then sets
                 else foldl (processPrimary simplized dateOf g curAnimes groupFingerprint
                               currentPrimarySource availableSecondaries)
                        sets primaryItems)"

definition groupStep ::
    "(jstring \<Rightarrow> jstring) \<Rightarrow> (jstring \<Rightarrow> (int \<times> int) option) \<Rightarrow> globals \<Rightarrow> anime list
       \<Rightarrow> mergeSets \<Rightarrow> mergeGroup \<Rightarrow> mergeSets" where
  \<comment> \<open>the body of \<open>for (const group of groups)\<close>\<close>
  "groupStep simplized dateOf g curAnimes sets mgroup =
     (let fullPriorityList = primary mgroup # secondaries mgroup
      in foldl (rotationStep simplized dateOf g curAnimes fullPriorityList)
           (sets \<lparr> groupConsumedIds := [] \<rparr>)
           [0 ..< length fullPriorityList - 1])"

definition mergeAll ::
    "(jstring \<Rightarrow> jstring) \<Rightarrow> (jstring \<Rightarrow> (int \<times> int) option) \<Rightarrow> globals \<Rightarrow> anime list \<Rightarrow> mergeSets" where
  \<comment> \<open>the loop over the groups, from the empty sets\<close>
  "mergeAll simplized dateOf g curAnimes =
     foldl (groupStep simplized dateOf g curAnimes)
       \<lparr> groupConsumedIds = [], globalConsumedIds = [], generatedSignatures = [],
         newMergedAnimes = [], addedAnimes = [] \<rparr>
       (mergeSourcePairs g)"

fun cleanupLoop :: "idValue list \<Rightarrow> nat \<Rightarrow> anime list \<Rightarrow> anime list" where
  \<comment> \<open>\<open>for (let i = curAnimes.length - 1; i >= 0; i--)\<close> with its \<open>splice(i, 1)\<close>; the
      first argument counts the indices still to visit, \<open>i + 1\<close>\<close>
  "cleanupLoop consumed 0 cur = cur"
| "cleanupLoop consumed (Suc i) cur =
     (let item = cur ! i
      in if isMerged item \<or> animeId item \<in> set consumed
         then cleanupLoop consumed i (take i cur @ drop (Suc i) cur)
         else cleanupLoop consumed i cur)"

definition applyMergeLogic ::
    "(jstring \<Rightarrow> jstring) \<Rightarrow> (jstring \<Rightarrow> (int \<times> int) option) \<Rightarrow> globals \<Rightarrow> anime list \<Rightarrow> anime list" where
  \<comment> \<open>the list \<open>curAnimes\<close> when the function returns\<close>
  "applyMergeLogic simplized dateOf g curAnimes =
     (if mergeSourcePairs g = [] then curAnimes
      else let sets = mergeAll simplized dateOf g curAnimes;
               cur = newMergedAnimes sets @ curAnimes
           in cleanupLoop (globalConsumedIds sets) (length cur) cur)"

definition episodeItem :: "jstring \<Rightarrow> nat \<Rightarrow> item" where
  \<comment> \<open>the element \<open>{ link: { title, url: '' }, originalIndex }\<close>, for concrete episode lists\<close>
  "episodeItem t i = \<lparr> item_link = \<lparr> link_title = Some t, link_name = None, link_url = [] \<rparr>,
                        originalIndex = i \<rparr>"

subsection \<open>A concrete run\<close>

text \<open>
  Three entries with the title \<open>X\<close>: one of source A with six links, one of source B
  with one link, one of source C with six links; no link has a title.  The only group
  is \<open>{ primary: 'A', secondaries: ['B', 'C'] }\<close>, there is no episode filter, the
  cache \<open>globals.animes\<close> holds the three entries, and no entry has a start date.
\<close>

definition urlLink :: "string \<Rightarrow> link" where
  "urlLink u = \<lparr> link_title = None, link_name = None, link_url = asc u \<rparr>"

definition entry :: "int \<Rightarrow> string \<Rightarrow> link list \<Rightarrow> anime" where
  "entry i s ls = \<lparr> animeId = IdNum i, bangumiId = intToString i, animeTitle = asc ''X'',
     source = asc s, startDate = None, typeDescription = None, episodeCount = None,
     links = Some ls, isMerged = False \<rparr>"

definition cur3 :: "anime list" where
  "cur3 = [entry 1 ''A'' (map urlLink [''p1'', ''p2'', ''p3'', ''p4'', ''p5'', ''p6'']),
           entry 2 ''B'' [urlLink ''s1''],
           entry 3 ''C'' (map urlLink [''c1'', ''c2'', ''c3'', ''c4'', ''c5'', ''c6''])]"

definition g3 :: globals where
  "g3 = \<lparr> mergeSourcePairs = [\<lparr> primary = asc ''A'', secondaries = [asc ''B'', asc ''C''] \<rparr>],
          episodeTitleFilter = None, animes = cur3 \<rparr>"

definition noDate :: "jstring \<Rightarrow> (int \<times> int) option" where
  \<comment> \<open>a \<open>Date\<close> that takes no string for a date; the entries above have no start date\<close>
  "noDate s = None"

definition mergedEntry :: anime where
  "mergedEntry = \<lparr> animeId = IdNum 1691043121, bangumiId = asc ''1691043121'', animeTitle = asc ''X'',
     source = asc ''A'', startDate = None, typeDescription = None, episodeCount = None,
     links = Some (map urlLink [''A:p1$$$B:s1$$$C:c1'', ''A:p2$$$C:c2'', ''A:p3$$$C:c3'',
                                ''A:p4$$$C:c4'', ''A:p5$$$C:c5'', ''A:p6$$$C:c6'']),
     isMerged = False \<rparr>"

subsection \<open>Auxiliary notions of the proofs\<close>

text \<open>
  The Levenshtein recursion on two lists, and the row of its values that the loops of
  \<open>editDistance\<close> hold: neither is part of the source.
\<close>

fun lev :: "jstring \<Rightarrow> jstring \<Rightarrow> nat" where
  "lev [] ys = length ys"
| "lev xs [] = length xs"
| "lev (x # xs) (y # ys) =
     min (lev xs (y # ys) + 1) (min (lev (x # xs) ys + 1) (lev xs ys + (if x = y then 0 else 1)))"

fun levRow :: "jstring \<Rightarrow> jstring \<Rightarrow> jstring \<Rightarrow> nat list" where
  "levRow a b [] = [lev a b]"
| "levRow a b (d # ds) = lev a b # levRow a (d # b) ds"



text \<open>
  The code units that the case tables must leave alone, for the proofs about the
  normaliser: white space, the punctuation that \<open>cleanText\<close> removes, and the surrogates.
  \<open>entryOk\<close>, \<open>okPair\<close> and \<open>pairOk\<close> are the checks of the tables that the proofs
  evaluate; \<open>quiet\<close> holds of a string no code point of which has a mapping.
\<close>

definition wsRanges :: "(int \<times> int) list" where
  "wsRanges = [(0x09, 0x0D), (0x20, 0x20), (0xA0, 0xA0), (0x1680, 0x1680), (0x2000, 0x200A),
     (0x2028, 0x2028), (0x2029, 0x2029), (0x202F, 0x202F), (0x205F, 0x205F), (0x3000, 0x3000),
     (0xFEFF, 0xFEFF)]"

definition punctRanges :: "(int \<times> int) list" where
  "punctRanges = [(0x21, 0x21), (0xFF01, 0xFF01), (0x3F, 0x3F), (0xFF1F, 0xFF1F), (0x2C, 0x2C),
     (0xFF0C, 0xFF0C), (0x2E, 0x2E), (0x3002, 0x3002), (0x3001, 0x3001), (0x7E, 0x7E),
     (0xFF5E, 0xFF5E), (0x3A, 0x3A), (0xFF1A, 0xFF1A), (0x2D, 0x2D), (0x2013, 0x2013),
     (0x2014, 0x2014)]"

definition specialRanges :: "(int \<times> int) list" where
  "specialRanges = wsRanges @ punctRanges @ [(0xD800, 0xDFFF)]"

definition apart :: "int \<Rightarrow> int \<Rightarrow> bool" where
  "apart a b = list_all (\<lambda>(lo, hi). b < lo \<or> hi < a) specialRanges"

definition entryOk :: "int \<times> int \<times> int \<times> int \<Rightarrow> bool" where
  "entryOk e = (case e of (lo, hi, st, d) \<Rightarrow>
     0 \<le> lo \<and> lo \<le> hi \<and> hi < 0x10000 \<and> (st = 1 \<or> st = 2) \<and> 0x61 \<le> lo + d \<and> hi + d < 0x10000
     \<and> apart lo hi \<and> apart (lo + d) (hi + d))"



definition pairOk :: "jchar \<times> int \<times> int \<times> int \<Rightarrow> bool" where
  "pairOk e = (case e of (h, lo, hi, d) \<Rightarrow>
     0xDC00 \<le> lo \<and> lo \<le> hi \<and> 0 \<le> d \<and> hi + d \<le> 0xDFFF
     \<and> list_all (\<lambda>(h', lo', hi', d'). h \<noteq> h' \<or> hi + d < lo' \<or> hi' < lo + d) lowerPairTable)"

fun quiet :: "jstring \<Rightarrow> bool" where
  "quiet [] = True"
| "quiet [c] = (lowerUnit c = c)"
| "quiet (c # d # cs) =
     (lowerUnit c = c \<and> (isHighSurrogate c \<and> isLowSurrogate d \<longrightarrow> lowerPair c d = [c, d])
      \<and> quiet (d # cs))"

definition isUpperAZ :: "jchar \<Rightarrow> bool" where
  "isUpperAZ c = (0x41 \<le> c \<and> c \<le> 0x5A)"

declare rmatch.simps(13,14) [simp del]

section \<open>Properties\<close>

subsection \<open>Strings\<close>

lemma startsWith_set: "startsWith s t \<Longrightarrow> set t \<subseteq> set s"
  by (induction s t rule: startsWith.induct) auto

lemma includes_set: "strIncludes s t \<Longrightarrow> set t \<subseteq> set s"
proof (induction s t rule: strIncludes.induct)
  case (1 t)
  then show ?case by simp
next
  case (2 c cs t)
  from "2.prems" have "startsWith (c # cs) t \<or> strIncludes cs t" by simp
  then show ?case
  proof
    assume "startsWith (c # cs) t"
    then show ?thesis by (rule startsWith_set)
  next
    assume "strIncludes cs t"
    then have "set t \<subseteq> set cs" by (rule "2.IH")
    then show ?thesis by auto
  qed
qed

lemma set_setAdd: "set (setAdd acc x) = insert x (set acc)"
  by (auto simp: setAdd_def)

lemma distinct_setAdd: "distinct acc \<Longrightarrow> distinct (setAdd acc x)"
  by (auto simp: setAdd_def)

lemma foldl_setAdd: "distinct acc \<Longrightarrow>
    distinct (foldl setAdd acc xs) \<and> set (foldl setAdd acc xs) = set acc \<union> set xs"
  by (induction xs arbitrary: acc) (auto simp: set_setAdd distinct_setAdd)

lemma distinct_newSet: "distinct (newSet xs)"
  using foldl_setAdd [of "[]" xs] by (simp add: newSet_def)

lemma set_newSet: "set (newSet xs) = set xs"
  using foldl_setAdd [of "[]" xs] by (simp add: newSet_def)

subsection \<open>The merged id\<close>

lemma toInt32_cong: "x mod 2 ^ 32 = y mod 2 ^ 32 \<Longrightarrow> toInt32 x = toInt32 y"
proof -
  assume "x mod 2 ^ 32 = y mod 2 ^ 32"
  then have "(x + 2 ^ 31) mod 2 ^ 32 = (y + 2 ^ 31) mod (2 ^ 32 :: int)"
    by (metis mod_add_left_eq)
  then show ?thesis by (simp add: toInt32_def)
qed

lemma toInt32_mod: "toInt32 x mod 2 ^ 32 = x mod 2 ^ 32"
proof -
  have "toInt32 x mod 2 ^ 32 = ((x + 2 ^ 31) mod 2 ^ 32 - 2 ^ 31) mod (2 ^ 32 :: int)"
    by (simp add: toInt32_def)
  also have "\<dots> = (x + 2 ^ 31 - 2 ^ 31) mod 2 ^ 32"
    by (rule mod_diff_left_eq)
  finally show ?thesis by simp
qed

lemma hashStep_poly: "hashStep h c = toInt32 (h * 31 + uint c)"
proof -
  have "toInt32 (h * 2 ^ 5) - h + uint c = toInt32 (h * 2 ^ 5) + (uint c - h)"
    by simp
  then have "(toInt32 (h * 2 ^ 5) - h + uint c) mod 2 ^ 32
      = (toInt32 (h * 2 ^ 5) mod 2 ^ 32 + (uint c - h)) mod 2 ^ 32"
    by (simp only: mod_add_left_eq)
  also have "\<dots> = ((h * 2 ^ 5) mod 2 ^ 32 + (uint c - h)) mod 2 ^ 32"
    by (simp only: toInt32_mod)
  also have "\<dots> = (h * 2 ^ 5 + (uint c - h)) mod 2 ^ 32"
    by (rule mod_add_left_eq)
  also have "\<dots> = (h * 31 + uint c) mod 2 ^ 32"
    by (simp add: algebra_simps)
  finally show ?thesis
    unfolding hashStep_def by (rule toInt32_cong)
qed

lemma foldl_hashStep: "foldl hashStep h s = foldl (\<lambda>h c. toInt32 (h * 31 + uint c)) h s"
  by (induction s arbitrary: h) (simp_all add: hashStep_poly)

text \<open>
  C3.  \<open>generateSafeMergedId\<close> is a function of its three arguments (so two calls on the
  same arguments agree); the loop of the source, written with \<open><< 5\<close> and \<open>| 0\<close>,
  computes the polynomial hash \<open>hash*31 + charCode\<close> wrapped to 32 bits signed over
  the string \<open>id1_id2_salt\<close>; and the result lies in \<open>[1000000000, 2147483647]\<close>.
\<close>

theorem generateSafeMergedId_hash_range:
  "generateSafeMergedId id1 id2 salt
     = \<bar>polyHash31 (idToString id1 @ asc ''_'' @ idToString id2 @ asc ''_'' @ salt)\<bar>
         mod 1000000000 + 1000000000
   \<and> 1000000000 \<le> generateSafeMergedId id1 id2 salt
   \<and> generateSafeMergedId id1 id2 salt \<le> 2147483647"
proof -
  let ?h = "foldl hashStep 0 (mergedIdString id1 id2 salt)"
  have eq: "?h = polyHash31 (idToString id1 @ asc ''_'' @ idToString id2 @ asc ''_'' @ salt)"
    by (simp add: foldl_hashStep polyHash31_def mergedIdString_def)
  have lo: "0 \<le> \<bar>?h\<bar> mod 1000000000" by simp
  have hi: "\<bar>?h\<bar> mod 1000000000 < 1000000000" by simp
  show ?thesis
    unfolding generateSafeMergedId_def using eq lo hi by simp
qed

subsection \<open>Edit distance and similarity\<close>

lemma lev_Nil2: "lev xs [] = length xs"
  by (cases xs) simp_all

lemma lev_sym: "lev xs ys = lev ys xs"
  by (induction xs ys rule: lev.induct) (simp_all add: lev_Nil2 min.commute min.left_commute eq_commute)

lemma levRow_hd: "\<exists>t. levRow a b ds = lev a b # t"
  by (cases ds) simp_all

lemma innerLoop_levRow:
  "innerLoop c ds (levRow a b ds) (lev (c # a) b) = tl (levRow (c # a) b ds)"
proof (induction ds arbitrary: b)
  case Nil
  then show ?case by simp
next
  case (Cons d ds)
  obtain t where t: "levRow a (d # b) ds = lev a (d # b) # t"
    using levRow_hd by blast
  obtain t' where t': "levRow (c # a) (d # b) ds = lev (c # a) (d # b) # t'"
    using levRow_hd by blast
  have cell: "min (lev a (d # b) + 1) (min (lev (c # a) b + 1) (lev a b + (if c = d then 0 else 1)))
      = lev (c # a) (d # b)" by simp
  have "innerLoop c (d # ds) (levRow a b (d # ds)) (lev (c # a) b)
      = lev (c # a) (d # b) # innerLoop c ds (levRow a (d # b) ds) (lev (c # a) (d # b))"
    using cell by (simp add: t Let_def del: lev.simps)
  also have "\<dots> = lev (c # a) (d # b) # tl (levRow (c # a) (d # b) ds)"
    by (simp only: Cons.IH)
  also have "\<dots> = levRow (c # a) (d # b) ds" by (simp add: t')
  finally show ?case by simp
qed

lemma outerLoop_levRow:
  "outerLoop cs s2 (length a) (levRow a [] s2) = levRow (rev cs @ a) [] s2"
proof (induction cs arbitrary: a)
  case Nil
  then show ?case by simp
next
  case (Cons c cs)
  obtain t where t: "levRow (c # a) [] s2 = lev (c # a) [] # t"
    using levRow_hd by blast
  have "Suc (length a) # innerLoop c s2 (levRow a [] s2) (Suc (length a)) = levRow (c # a) [] s2"
    using innerLoop_levRow [of c s2 a "[]"] by (simp add: t)
  then show ?case using Cons.IH [of "c # a"] by simp
qed

lemma levRow_Nil: "levRow [] b s2 = [length b ..< Suc (length b + length s2)]"
proof (induction s2 arbitrary: b)
  case Nil
  then show ?case by simp
next
  case (Cons d ds)
  have "levRow [] b (d # ds) = length b # [Suc (length b) ..< Suc (Suc (length b) + length ds)]"
    using Cons [of "d # b"] by (simp del: upt_Suc)
  also have "\<dots> = [length b ..< Suc (length b + length (d # ds))]"
    by (simp add: upt_conv_Cons del: upt_Suc)
  finally show ?case .
qed

lemma last_levRow: "last (levRow a b ds) = lev a (rev ds @ b)"
proof (induction ds arbitrary: b)
  case Nil
  then show ?case by simp
next
  case (Cons d ds)
  obtain t where t: "levRow a (d # b) ds = lev a (d # b) # t"
    using levRow_hd by blast
  then show ?case using Cons.IH [of "d # b"] by simp
qed

lemma editDistance_lev: "editDistance s1 s2 = lev (rev s1) (rev s2)"
proof -
  have "outerLoop s1 s2 0 [0 ..< Suc (length s2)] = levRow (rev s1) [] s2"
    using outerLoop_levRow [of s1 s2 "[]"] by (simp add: levRow_Nil)
  then show ?thesis by (simp add: editDistance_def last_levRow)
qed

lemma editDistance_sym: "editDistance s1 s2 = editDistance s2 s1"
  by (simp add: editDistance_lev lev_sym)

lemma dice_intersection_sym:
  assumes "distinct xs" "distinct ys"
  shows "length (filter (\<lambda>x. x \<in> set ys) xs) = length (filter (\<lambda>y. y \<in> set xs) ys)"
proof -
  have d1: "distinct (filter (\<lambda>x. x \<in> set ys) xs)" using assms(1) by simp
  have d2: "distinct (filter (\<lambda>y. y \<in> set xs) ys)" using assms(2) by simp
  have "set (filter (\<lambda>x. x \<in> set ys) xs) = set (filter (\<lambda>y. y \<in> set xs) ys)"
    by auto
  then have "card (set (filter (\<lambda>x. x \<in> set ys) xs)) = card (set (filter (\<lambda>y. y \<in> set xs) ys))"
    by (rule arg_cong)
  then show ?thesis
    by (simp only: distinct_card [OF d1] distinct_card [OF d2])
qed

lemma calculateDiceSimilarity_sym: "calculateDiceSimilarity a b = calculateDiceSimilarity b a"
proof -
  let ?s1 = "newSet (stringIterator (removeWhiteSpace a))"
  let ?s2 = "newSet (stringIterator (removeWhiteSpace b))"
  have i: "length (filter (\<lambda>x. x \<in> set ?s2) ?s1) = length (filter (\<lambda>y. y \<in> set ?s1) ?s2)"
    by (rule dice_intersection_sym [OF distinct_newSet distinct_newSet])
  have l: "length ?s1 + length ?s2 = length ?s2 + length ?s1" by simp
  show ?thesis
  proof (cases "a = [] \<or> b = []")
    case True
    then show ?thesis by (auto simp: calculateDiceSimilarity_def)
  next
    case False
    then show ?thesis
      unfolding calculateDiceSimilarity_def Let_def
      by (simp only: i l) auto
  qed
qed

lemma calculateSimilarity_sym_aux:
  "calculateSimilarity simplized a b = calculateSimilarity simplized b a"
proof -
  let ?s1 = "cleanText simplized a"
  let ?s2 = "cleanText simplized b"
  show ?thesis
  proof (cases "a = [] \<or> b = []")
    case True
    then show ?thesis by (auto simp: calculateSimilarity_def)
  next
    case ne: False
    show ?thesis
    proof (cases "?s1 = ?s2")
      case True
      with ne show ?thesis by (simp add: calculateSimilarity_def)
    next
      case neq: False
      then have neq': "?s2 \<noteq> ?s1" by simp
      show ?thesis
      proof (cases "strIncludes ?s1 ?s2 \<or> strIncludes ?s2 ?s1")
        case True
        then have t': "strIncludes ?s2 ?s1 \<or> strIncludes ?s1 ?s2" by blast
        have "calculateSimilarity simplized a b
            = 8 / 10 + of_nat (min (length ?s1) (length ?s2)) / of_nat (max (length ?s1) (length ?s2)) * (2 / 10)"
          using ne neq True by (simp add: calculateSimilarity_def Let_def)
        moreover have "calculateSimilarity simplized b a
            = 8 / 10 + of_nat (min (length ?s2) (length ?s1)) / of_nat (max (length ?s2) (length ?s1)) * (2 / 10)"
          using ne neq' t' by (simp add: calculateSimilarity_def Let_def)
        ultimately show ?thesis by (simp only: min.commute max.commute)
      next
        case False
        then have f': "\<not> (strIncludes ?s2 ?s1 \<or> strIncludes ?s1 ?s2)" by blast
        have "calculateSimilarity simplized a b
            = max (if max (length ?s1) (length ?s2) = 0 then 1
                   else 1 - of_nat (editDistance ?s1 ?s2) / of_nat (max (length ?s1) (length ?s2)))
                  (calculateDiceSimilarity ?s1 ?s2)"
          using ne neq False by (simp add: calculateSimilarity_def Let_def)
        moreover have "calculateSimilarity simplized b a
            = max (if max (length ?s2) (length ?s1) = 0 then 1
                   else 1 - of_nat (editDistance ?s2 ?s1) / of_nat (max (length ?s2) (length ?s1)))
                  (calculateDiceSimilarity ?s2 ?s1)"
          using ne neq' f' by (simp add: calculateSimilarity_def Let_def)
        ultimately show ?thesis
          by (simp only: max.commute [of "length ?s2"] editDistance_sym [of ?s2]
                calculateDiceSimilarity_sym [of ?s2])
      qed
    qed
  qed
qed

text \<open>
  C9.  \<open>calculateSimilarity\<close> is symmetric in its two strings, and a non-empty string
  has similarity 1 with itself.
\<close>

theorem calculateSimilarity_symmetric:
  "calculateSimilarity simplized a b = calculateSimilarity simplized b a
   \<and> (a \<noteq> [] \<longrightarrow> calculateSimilarity simplized a a = 1)"
proof
  show "calculateSimilarity simplized a b = calculateSimilarity simplized b a"
    by (rule calculateSimilarity_sym_aux)
next
  show "a \<noteq> [] \<longrightarrow> calculateSimilarity simplized a a = 1"
    by (simp add: calculateSimilarity_def)
qed

theorem calculateSimilarity_symmetric_witness:
  "calculateSimilarity simplizedLatin (asc ''ab'') (asc ''ab'') = 1
   \<and> calculateSimilarity simplizedLatin (asc ''ab'') (asc ''b'')
       = calculateSimilarity simplizedLatin (asc ''b'') (asc ''ab'')"
proof -
  have "asc ''ab'' \<noteq> []" by (simp add: asc_def)
  then show ?thesis
    using calculateSimilarity_symmetric [of simplizedLatin "asc ''ab''" "asc ''ab''"]
      calculateSimilarity_symmetric [of simplizedLatin "asc ''ab''" "asc ''b''"]
    by blast
qed

subsection \<open>The text normaliser\<close>









lemma table_ok: "list_all entryOk lowerTable"
  by code_simp


lemma entry_ok: "e \<in> set lowerTable \<Longrightarrow> entryOk e"
  using table_ok by (simp add: list_all_iff)


lemma lowerUnit_cases:
  obtains (fixed) "lowerUnit c = c" "\<forall>e \<in> set lowerTable. \<not> inEntry (uint c) e"
  | (mapped) lo hi st d where "(lo, hi, st, d) \<in> set lowerTable"
      "inEntry (uint c) (lo, hi, st, d)" "lowerUnit c = word_of_int (uint c + d)"
proof (cases "find (inEntry (uint c)) lowerTable")
  case None
  then have "\<forall>e \<in> set lowerTable. \<not> inEntry (uint c) e"
    unfolding find_None_iff by blast
  moreover have "lowerUnit c = c" using None by (simp add: lowerUnit_def)
  ultimately show ?thesis using fixed by blast
next
  case (Some e)
  obtain lo hi st d where e: "e = (lo, hi, st, d)" by (cases e) auto
  from Some have "e \<in> set lowerTable" "inEntry (uint c) e"
    by (auto simp: find_Some_iff)
  moreover have "lowerUnit c = word_of_int (uint c + d)"
    using Some e by (simp add: lowerUnit_def)
  ultimately show ?thesis using e mapped by blast
qed

lemma mapped_uint:
  assumes "(lo, hi, st, d) \<in> set lowerTable" "inEntry (uint c) (lo, hi, st, d)"
  shows "uint (word_of_int (uint c + d) :: jchar) = uint c + d"
proof -
  from entry_ok [OF assms(1)] assms(2)
  have "0 \<le> uint c + d" "uint c + d < 65536"
    by (auto simp: entryOk_def inEntry_def)
  have "uint (word_of_int (uint c + d) :: jchar) = (uint c + d) mod 2 ^ LENGTH(16)"
    by (rule uint_word_of_int)
  also have "\<dots> = uint c + d" using \<open>0 \<le> uint c + d\<close> \<open>uint c + d < 65536\<close> by simp
  finally show ?thesis .
qed

lemma apart_not_special: "apart a b \<Longrightarrow> a \<le> n \<Longrightarrow> n \<le> b \<Longrightarrow> \<not> inRanges n specialRanges"
  unfolding apart_def inRanges_def list_all_iff list_ex_iff by fastforce


lemma lower_special:
  assumes "inRanges (uint (lowerUnit c)) specialRanges"
  shows "lowerUnit c = c"
proof (cases c rule: lowerUnit_cases)
  case fixed
  then show ?thesis by simp
next
  case (mapped lo hi st d)
  have u: "uint (lowerUnit c) = uint c + d"
    using mapped_uint [OF mapped(1,2)] mapped(3) by simp
  from entry_ok [OF mapped(1)] have "apart (lo + d) (hi + d)" by (simp add: entryOk_def)
  moreover from mapped(2) have "lo + d \<le> uint c + d" "uint c + d \<le> hi + d"
    by (simp_all add: inEntry_def)
  ultimately have "\<not> inRanges (uint c + d) specialRanges" by (rule apart_not_special)
  with assms u show ?thesis by simp
qed



lemma lowerUnit_not_upper: "\<not> (0x41 \<le> uint (lowerUnit c) \<and> uint (lowerUnit c) \<le> 0x5A)"
proof (cases c rule: lowerUnit_cases)
  case fixed
  have "(0x41, 0x5A, 1, 0x20) \<in> set lowerTable" by (simp add: lowerTable_def)
  with fixed(2) have "\<not> inEntry (uint c) (0x41, 0x5A, 1, 0x20)" by blast
  then show ?thesis using fixed(1) by (simp add: inEntry_def)
next
  case (mapped lo hi st d)
  have u: "uint (lowerUnit c) = uint c + d"
    using mapped_uint [OF mapped(1,2)] mapped(3) by simp
  from entry_ok [OF mapped(1)] mapped(2) have "0x61 \<le> uint c + d"
    by (auto simp: entryOk_def inEntry_def)
  with u show ?thesis by simp
qed

lemma inRanges_Cons: "inRanges n ((lo, hi) # t) = ((lo \<le> n \<and> n \<le> hi) \<or> inRanges n t)"
  by (simp add: inRanges_def)

lemma inRanges_Nil: "inRanges n [] = False"
  by (simp add: inRanges_def)

lemma inRanges_append: "inRanges n (a @ b) = (inRanges n a \<or> inRanges n b)"
  by (simp add: inRanges_def)

lemma le_le_eq: "(a \<le> n \<and> n \<le> a) = (n = (a :: int))"
  by auto








lemma pair_table_ok: "list_all pairOk lowerPairTable"
  by code_simp





lemma lowerPair_shape:
  assumes "isLowSurrogate l"
  shows "\<exists>l'. lowerPair h l = [h, l'] \<and> isLowSurrogate l' \<and> lowerPair h l' = [h, l']"
proof (cases "find (inPairEntry h l) lowerPairTable")
  case None
  then have "lowerPair h l = [h, l]" by (simp add: lowerPair_def)
  with assms show ?thesis by auto
next
  case (Some e)
  obtain h' lo hi d where e: "e = (h', lo, hi, d)" by (cases e) auto
  from Some have mem: "e \<in> set lowerPairTable" and ine: "inPairEntry h l e"
    by (auto simp: find_Some_iff)
  from pair_table_ok mem have ok: "pairOk e" by (simp add: list_all_iff)
  define l' :: jchar where "l' = word_of_int (uint l + d)"
  have lp: "lowerPair h l = [h, l']" using Some e by (simp add: lowerPair_def l'_def)
  from ine e have b: "h = h'" "lo \<le> uint l" "uint l \<le> hi" by (simp_all add: inPairEntry_def)
  from ok e have k: "0xDC00 \<le> lo" "0 \<le> d" "hi + d \<le> 0xDFFF"
      "\<forall>f \<in> set lowerPairTable. case f of (h2, lo2, hi2, d2) \<Rightarrow> h' \<noteq> h2 \<or> hi + d < lo2 \<or> hi2 < lo + d"
    by (simp_all add: pairOk_def list_all_iff)
  have "uint l' = (uint l + d) mod 2 ^ LENGTH(16)"
    unfolding l'_def by (rule uint_word_of_int)
  also have "\<dots> = uint l + d" using b k by simp
  finally have u: "uint l' = uint l + d" .
  have low: "isLowSurrogate l'"
    unfolding isLowSurrogate_def word_le_def using u b k by simp
  have "\<forall>f \<in> set lowerPairTable. \<not> inPairEntry h l' f"
  proof
    fix f assume f: "f \<in> set lowerPairTable"
    obtain h2 lo2 hi2 d2 where f': "f = (h2, lo2, hi2, d2)" by (cases f) auto
    from k(4) f f' have "h' \<noteq> h2 \<or> hi + d < lo2 \<or> hi2 < lo + d" by auto
    then show "\<not> inPairEntry h l' f" using b u by (auto simp: inPairEntry_def f')
  qed
  then have "find (inPairEntry h l') lowerPairTable = None" by (simp add: find_None_iff)
  then have "lowerPair h l' = [h, l']" by (simp add: lowerPair_def)
  with lp low show ?thesis by blast
qed


lemma lowerOne_cases:
  obtains (sigma) "c = 0x3A3" "lowerOne b c a = [0x3C2] \<or> lowerOne b c a = [0x3C3]"
  | (dotted) "c = 0x130" "lowerOne b c a = [0x69, 0x307]"
  | (unit) "c \<noteq> 0x3A3" "c \<noteq> 0x130" "lowerOne b c a = [lowerUnit c]"
  by (cases "c = 0x3A3"; cases "c = 0x130") (auto simp: lowerOne_def)





lemma quiet_hd: "quiet (c # cs) \<Longrightarrow> lowerUnit c = c"
  by (cases cs) simp_all















lemma punct_special: "inRanges n punctRanges \<Longrightarrow> inRanges n specialRanges"
  by (simp add: specialRanges_def inRanges_append)

lemma punct_not_surrogate:
  "inRanges (uint c) punctRanges \<Longrightarrow> \<not> isHighSurrogate c \<and> \<not> isLowSurrogate c"
  unfolding punctRanges_def inRanges_Cons inRanges_Nil le_le_eq isHighSurrogate_def
    isLowSurrogate_def word_le_def
  by auto

lemma lowerUnit_keeps:
  "\<not> isUpperAZ (lowerUnit c) \<and> (inRanges (uint (lowerUnit c)) punctRanges \<longrightarrow> lowerUnit c = c)"
  using lowerUnit_not_upper [of c] lower_special [OF punct_special, of c]
  by (auto simp: isUpperAZ_def word_le_def)

lemma consts_keep:
  "\<not> isUpperAZ 0x3C2" "\<not> isUpperAZ 0x3C3" "\<not> isUpperAZ 0x69" "\<not> isUpperAZ 0x307"
  "\<not> inRanges 0x3C2 punctRanges" "\<not> inRanges 0x3C3 punctRanges"
  "\<not> inRanges 0x69 punctRanges" "\<not> inRanges 0x307 punctRanges"
  by (simp_all add: isUpperAZ_def punctRanges_def inRanges_Cons inRanges_Nil)

lemma lowerOne_keeps:
  "u \<in> set (lowerOne b c a) \<Longrightarrow> \<not> isUpperAZ u \<and> (inRanges (uint u) punctRanges \<longrightarrow> u = c)"
  by (cases b c a rule: lowerOne_cases) (auto simp: consts_keep lowerUnit_keeps)

lemma surrogate_not_upper: "isHighSurrogate c \<or> isLowSurrogate c \<Longrightarrow> \<not> isUpperAZ c"
  unfolding isHighSurrogate_def isLowSurrogate_def isUpperAZ_def word_le_def by auto

lemma lowerLoop_keeps:
  "u \<in> set (lowerLoop b s) \<Longrightarrow> \<not> isUpperAZ u \<and> (inRanges (uint u) punctRanges \<longrightarrow> u \<in> set s)"
proof (induction b s rule: lowerLoop.induct)
  case (1 b)
  then show ?case by simp
next
  case (2 b c)
  then show ?case using lowerOne_keeps [of u b c "[]"] by simp
next
  case (3 b c d cs)
  show ?case
  proof (cases "isHighSurrogate c \<and> isLowSurrogate d")
    case True
    then obtain l' where l': "lowerPair c d = [c, l']" "isLowSurrogate l'"
      using lowerPair_shape [of d c] by blast
    from "3.prems" True l'(1) have "u = c \<or> u = l' \<or> u \<in> set (lowerLoop (d # c # b) cs)"
      by auto
    then show ?thesis
    proof (elim disjE)
      assume "u = c"
      with True show ?thesis using surrogate_not_upper [of c] by simp
    next
      assume "u = l'"
      with l'(2) show ?thesis using surrogate_not_upper [of l'] punct_not_surrogate [of l'] by blast
    next
      assume "u \<in> set (lowerLoop (d # c # b) cs)"
      from "3.IH"(1) [OF True this] show ?thesis by simp
    qed
  next
    case False
    have e: "lowerLoop b (c # d # cs) = lowerOne b c (d # cs) @ lowerLoop (c # b) (d # cs)"
      by (simp only: lowerLoop.simps False if_False)
    from "3.prems" e have "u \<in> set (lowerOne b c (d # cs)) \<or> u \<in> set (lowerLoop (c # b) (d # cs))"
      by simp
    then show ?thesis
    proof
      assume "u \<in> set (lowerOne b c (d # cs))"
      from lowerOne_keeps [OF this] show ?thesis by simp
    next
      assume "u \<in> set (lowerLoop (c # b) (d # cs))"
      from "3.IH"(2) [OF False this] show ?thesis by simp
    qed
  qed
qed

lemma toLowerCase_no_B: "0x42 \<notin> set (toLowerCase s)"
proof
  assume "0x42 \<in> set (toLowerCase s)"
  then have "\<not> isUpperAZ 0x42" unfolding toLowerCase_def using lowerLoop_keeps by blast
  then show False by (simp add: isUpperAZ_def)
qed




























subsection \<open>The special episode type\<close>

lemma no_Bloopers: "\<not> strIncludes (toLowerCase ti) (asc ''Bloopers'')"
proof
  assume "strIncludes (toLowerCase ti) (asc ''Bloopers'')"
  then have "set (asc ''Bloopers'') \<subseteq> set (toLowerCase ti)" by (rule includes_set)
  moreover have "0x42 \<in> set (asc ''Bloopers'')" by (simp add: asc_def)
  ultimately show False using toLowerCase_no_B by blast
qed

lemma getSpecialEpisodeType_cases:
  "getSpecialEpisodeType title \<in> {Some Opening, Some Ending, Some Interview, None}"
  by (cases title) (simp_all add: getSpecialEpisodeType_def Let_def no_Bloopers)

lemma getSpecialEpisodeType_opening:
  "getSpecialEpisodeType (Some (asc ''Opening'')) = Some Opening"
  by code_simp

lemma getSpecialEpisodeType_ending:
  "getSpecialEpisodeType (Some (asc ''Ending'')) = Some Ending"
  by code_simp

lemma getSpecialEpisodeType_interview:
  "getSpecialEpisodeType (Some (asc ''Interview'')) = Some Interview"
  by code_simp

lemma getSpecialEpisodeType_null: "getSpecialEpisodeType None = None"
  by (simp add: getSpecialEpisodeType_def)

text \<open>
  C10.  \<open>getSpecialEpisodeType\<close> never returns \<open>'Bloopers'\<close>: the title is lower-cased
  before it is searched for the capitalised token, which a lower-cased string cannot
  contain.  The values the function takes are exactly \<open>'opening'\<close>, \<open>'ending'\<close>,
  \<open>'interview'\<close> and \<open>null\<close>.
\<close>

theorem getSpecialEpisodeType_range:
  "getSpecialEpisodeType title \<noteq> Some Bloopers
   \<and> range getSpecialEpisodeType = {Some Opening, Some Ending, Some Interview, None}"
proof
  show "getSpecialEpisodeType title \<noteq> Some Bloopers"
    using getSpecialEpisodeType_cases [of title] by auto
next
  show "range getSpecialEpisodeType = {Some Opening, Some Ending, Some Interview, None}"
  proof
    show "range getSpecialEpisodeType \<subseteq> {Some Opening, Some Ending, Some Interview, None}"
    proof
      fix v assume "v \<in> range getSpecialEpisodeType"
      then obtain ti where "v = getSpecialEpisodeType ti" by (rule rangeE)
      then show "v \<in> {Some Opening, Some Ending, Some Interview, None}"
        using getSpecialEpisodeType_cases [of ti] by simp
    qed
  next
    have "Some Opening \<in> range getSpecialEpisodeType"
      using getSpecialEpisodeType_opening by (metis rangeI)
    moreover have "Some Ending \<in> range getSpecialEpisodeType"
      using getSpecialEpisodeType_ending by (metis rangeI)
    moreover have "Some Interview \<in> range getSpecialEpisodeType"
      using getSpecialEpisodeType_interview by (metis rangeI)
    moreover have "None \<in> range getSpecialEpisodeType"
      using getSpecialEpisodeType_null by (metis rangeI)
    ultimately show "{Some Opening, Some Ending, Some Interview, None} \<subseteq> range getSpecialEpisodeType"
      by blast
  qed
qed

subsection \<open>The Dice coefficient\<close>

lemma dice_intersection_le:
  assumes "distinct xs"
  shows "length (filter (\<lambda>x. x \<in> set ys) xs) \<le> length xs"
    and "length (filter (\<lambda>x. x \<in> set ys) xs) \<le> card (set ys)"
proof -
  show "length (filter (\<lambda>x. x \<in> set ys) xs) \<le> length xs" by simp
  have d: "distinct (filter (\<lambda>x. x \<in> set ys) xs)" using assms by simp
  have "set (filter (\<lambda>x. x \<in> set ys) xs) \<subseteq> set ys" by auto
  then have "card (set (filter (\<lambda>x. x \<in> set ys) xs)) \<le> card (set ys)"
    by (rule card_mono [OF finite_set])
  moreover have "card (set (filter (\<lambda>x. x \<in> set ys) xs)) = length (filter (\<lambda>x. x \<in> set ys) xs)"
    using d by (rule distinct_card)
  ultimately show "length (filter (\<lambda>x. x \<in> set ys) xs) \<le> card (set ys)"
    by linarith
qed

lemma dice_quotient_bounds:
  assumes "distinct xs" "distinct ys"
  shows "0 \<le> (2 * of_nat (length (filter (\<lambda>x. x \<in> set ys) xs)) :: rat) / of_nat (length xs + length ys)"
    and "(2 * of_nat (length (filter (\<lambda>x. x \<in> set ys) xs)) :: rat) / of_nat (length xs + length ys) \<le> 1"
proof -
  let ?i = "length (filter (\<lambda>x. x \<in> set ys) xs)"
  show "0 \<le> (2 * of_nat ?i :: rat) / of_nat (length xs + length ys)"
    by simp
  have "?i \<le> length xs" by (rule length_filter_le)
  moreover have "?i \<le> card (set ys)" using assms(1) by (rule dice_intersection_le(2))
  moreover have "card (set ys) = length ys" using assms(2) by (rule distinct_card)
  ultimately have "2 * ?i \<le> length xs + length ys" by linarith
  then have "(of_nat (2 * ?i) :: rat) \<le> of_nat (length xs + length ys)"
    by (simp only: of_nat_le_iff)
  then have le: "(2 * of_nat ?i :: rat) \<le> of_nat (length xs + length ys)" by simp
  show "(2 * of_nat ?i :: rat) / of_nat (length xs + length ys) \<le> 1"
  proof (cases "length xs + length ys = 0")
    case True
    then show ?thesis by simp
  next
    case False
    then have "0 < length xs + length ys" by simp
    then have "(0 :: rat) < of_nat (length xs + length ys)" by (simp only: of_nat_0_less_iff)
    with le show ?thesis by (simp only: divide_le_eq_1_pos)
  qed
qed

text \<open>
  C5 as the code has it.  \<open>calculateDiceSimilarity\<close> returns a value in \<open>[0, 1]\<close>.  Its
  first statement returns 0 as soon as one argument is the empty string, so for two
  empty strings the result is 0; the value 1 for two empty character sets is returned
  when both arguments are non-empty and hold only white space, and 0 when both are
  non-empty and exactly one of them holds only white space.
\<close>

theorem calculateDiceSimilarity_bounds:
  "0 \<le> calculateDiceSimilarity a b \<and> calculateDiceSimilarity a b \<le> 1
   \<and> (a = [] \<or> b = [] \<longrightarrow> calculateDiceSimilarity a b = 0)
   \<and> (a \<noteq> [] \<and> b \<noteq> [] \<and> removeWhiteSpace a = [] \<and> removeWhiteSpace b = []
        \<longrightarrow> calculateDiceSimilarity a b = 1)
   \<and> (a \<noteq> [] \<and> b \<noteq> [] \<and> (removeWhiteSpace a = []) \<noteq> (removeWhiteSpace b = [])
        \<longrightarrow> calculateDiceSimilarity a b = 0)"
proof -
  let ?s1 = "newSet (stringIterator (removeWhiteSpace a))"
  let ?s2 = "newSet (stringIterator (removeWhiteSpace b))"
  have emp: "(newSet (stringIterator s) = []) = (s = [])" for s :: jstring
  proof -
    have "(stringIterator s = []) = (s = [])"
      by (cases s rule: stringIterator.cases) simp_all
    moreover have "(newSet xs = []) = (xs = [])" for xs :: "jstring list"
      using set_newSet [of xs] by (metis set_empty)
    ultimately show ?thesis by simp
  qed
  have b0: "0 \<le> calculateDiceSimilarity a b"
    unfolding calculateDiceSimilarity_def Let_def
    using dice_quotient_bounds(1) [OF distinct_newSet distinct_newSet] by simp
  have q1: "(2 * of_nat (length (filter (\<lambda>x. x \<in> set ?s2) ?s1)) :: rat)
               / of_nat (length ?s1 + length ?s2) \<le> 1"
    by (rule dice_quotient_bounds(2) [OF distinct_newSet distinct_newSet])
  have b1: "calculateDiceSimilarity a b \<le> 1"
    unfolding calculateDiceSimilarity_def Let_def
    using q1 by (simp del: of_nat_add)
  have e0: "a = [] \<or> b = [] \<longrightarrow> calculateDiceSimilarity a b = 0"
    by (simp add: calculateDiceSimilarity_def)
  have e1: "a \<noteq> [] \<and> b \<noteq> [] \<and> removeWhiteSpace a = [] \<and> removeWhiteSpace b = []
        \<longrightarrow> calculateDiceSimilarity a b = 1"
    by (simp add: calculateDiceSimilarity_def Let_def emp)
  have e2: "a \<noteq> [] \<and> b \<noteq> [] \<and> (removeWhiteSpace a = []) \<noteq> (removeWhiteSpace b = [])
        \<longrightarrow> calculateDiceSimilarity a b = 0"
    by (auto simp add: calculateDiceSimilarity_def Let_def emp)
  from b0 b1 e0 e1 e2 show ?thesis by blast
qed

theorem calculateDiceSimilarity_bounds_witness:
  "calculateDiceSimilarity [] (asc ''a'') = 0
   \<and> calculateDiceSimilarity (asc '' '') (asc '' '') = 1
   \<and> calculateDiceSimilarity (asc '' '') (asc ''a'') = 0"
proof -
  have ws: "removeWhiteSpace (asc '' '') = []" "removeWhiteSpace (asc ''a'') \<noteq> []"
    by (simp_all add: removeWhiteSpace_def asc_def isWhiteSpace_def)
  have ne: "asc '' '' \<noteq> []" "asc ''a'' \<noteq> []" by (simp_all add: asc_def)
  show ?thesis
    using calculateDiceSimilarity_bounds [of "[]" "asc ''a''"]
      calculateDiceSimilarity_bounds [of "asc '' ''" "asc '' ''"]
      calculateDiceSimilarity_bounds [of "asc '' ''" "asc ''a''"] ws ne
    by simp
qed

theorem calculateDiceSimilarity_empty_counterexample:
  "calculateDiceSimilarity [] [] \<noteq> 1"
  by (simp add: calculateDiceSimilarity_def)

subsection \<open>Media type and season conflicts\<close>

text \<open>
  C6.  When one of the two strict media types is undefined or both are the same,
  \<open>checkMediaTypeMismatch\<close> reports no conflict.  When both are defined and differ and
  the theatrical exemption does not apply: two positive counts at most 5 apart give no
  conflict, two positive counts more than 5 apart give a conflict, and a count of 0 on
  either side gives a conflict.
\<close>

theorem checkMediaTypeMismatch_cases:
  "(getStrictMediaType titleA typeA = None \<or> getStrictMediaType titleB typeB = None
      \<or> getStrictMediaType titleA typeA = getStrictMediaType titleB typeB
    \<longrightarrow> \<not> checkMediaTypeMismatch simplized titleA titleB typeA typeB countA countB)
   \<and> (getStrictMediaType titleA typeA \<noteq> None \<and> getStrictMediaType titleB typeB \<noteq> None
      \<and> getStrictMediaType titleA typeA \<noteq> getStrictMediaType titleB typeB
      \<and> \<not> checkTheatricalExemption simplized titleA titleB typeA typeB
    \<longrightarrow> (0 < countA \<and> 0 < countB \<and> \<bar>countA - countB\<bar> \<le> 5
           \<longrightarrow> \<not> checkMediaTypeMismatch simplized titleA titleB typeA typeB countA countB)
        \<and> (0 < countA \<and> 0 < countB \<and> 5 < \<bar>countA - countB\<bar>
           \<longrightarrow> checkMediaTypeMismatch simplized titleA titleB typeA typeB countA countB)
        \<and> (countA = 0 \<or> countB = 0
           \<longrightarrow> checkMediaTypeMismatch simplized titleA titleB typeA typeB countA countB))"
  unfolding checkMediaTypeMismatch_def Let_def by auto

theorem checkMediaTypeMismatch_cases_witness:
  "checkMediaTypeMismatch simplizedLatin (asc ''XX '' @ [0x7535, 0x5F71])
       (asc ''XX '' @ [0x7535, 0x89C6, 0x5267]) (Some [0x7535, 0x5F71])
       (Some [0x7535, 0x89C6, 0x5267]) 1 24
   \<and> checkMediaTypeMismatch simplizedLatin (asc ''XX '' @ [0x7535, 0x5F71])
       (asc ''XX '' @ [0x7535, 0x89C6, 0x5267]) (Some [0x7535, 0x5F71])
       (Some [0x7535, 0x89C6, 0x5267]) 0 0
   \<and> \<not> checkMediaTypeMismatch simplizedLatin (asc ''XX '' @ [0x7535, 0x5F71])
       (asc ''XX '' @ [0x7535, 0x89C6, 0x5267]) (Some [0x7535, 0x5F71])
       (Some [0x7535, 0x89C6, 0x5267]) 12 13
   \<and> \<not> checkMediaTypeMismatch simplizedLatin (asc ''XX'') (asc ''XX'') None None 1 24"
proof -
  let ?a = "asc ''XX '' @ [0x7535, 0x5F71]"
  let ?b = "asc ''XX '' @ [0x7535, 0x89C6, 0x5267]"
  let ?ta = "Some [0x7535, 0x5F71 :: jchar]"
  let ?tb = "Some [0x7535, 0x89C6, 0x5267 :: jchar]"
  have ma: "getStrictMediaType ?a ?ta = Some (asc ''MOVIE'')" by code_simp
  have mb: "getStrictMediaType ?b ?tb = Some (asc ''TV'')" by code_simp
  have ne: "Some (asc ''MOVIE'') \<noteq> Some (asc ''TV'')" by code_simp
  have ex: "\<not> checkTheatricalExemption simplizedLatin ?a ?b ?ta ?tb" by code_simp
  have mn: "getStrictMediaType (asc ''XX'') None = None" by code_simp
  show ?thesis
    using checkMediaTypeMismatch_cases [of ?a ?ta ?b ?tb simplizedLatin 1 24]
      checkMediaTypeMismatch_cases [of ?a ?ta ?b ?tb simplizedLatin 0 0]
      checkMediaTypeMismatch_cases [of ?a ?ta ?b ?tb simplizedLatin 12 13]
      checkMediaTypeMismatch_cases [of "asc ''XX''" None "asc ''XX''" None simplizedLatin 1 24]
      ma mb ne ex mn
    by simp
qed

lemma seasonLoop_iff:
  "seasonLoop markersA markersB
     = ((\<exists>m \<in> set markersA. startsWith m (asc ''S'') \<and> m \<notin> set markersB)
        \<and> (\<exists>b \<in> set markersB. startsWith b (asc ''S'')))"
  by (induction markersA) (auto simp: list_ex_iff)

text \<open>
  C7.  With no season marker on either side \<open>checkSeasonMismatch\<close> reports no conflict.
  With markers on both sides it reports a conflict exactly when a marker of A that
  begins with \<open>S\<close> is missing from B while B has a marker that begins with \<open>S\<close>.  With
  markers on one side only it reports a conflict unless the theatrical exemption
  applies.
\<close>

theorem checkSeasonMismatch_cases:
  "(extractSeasonMarkers simplized titleA typeA = []
      \<and> extractSeasonMarkers simplized titleB typeB = []
    \<longrightarrow> \<not> checkSeasonMismatch simplized titleA titleB typeA typeB)
   \<and> (extractSeasonMarkers simplized titleA typeA \<noteq> []
      \<and> extractSeasonMarkers simplized titleB typeB \<noteq> []
    \<longrightarrow> checkSeasonMismatch simplized titleA titleB typeA typeB
         = ((\<exists>m \<in> set (extractSeasonMarkers simplized titleA typeA).
               startsWith m (asc ''S'') \<and> m \<notin> set (extractSeasonMarkers simplized titleB typeB))
            \<and> (\<exists>b \<in> set (extractSeasonMarkers simplized titleB typeB). startsWith b (asc ''S''))))
   \<and> ((extractSeasonMarkers simplized titleA typeA = [])
        \<noteq> (extractSeasonMarkers simplized titleB typeB = [])
    \<longrightarrow> checkSeasonMismatch simplized titleA titleB typeA typeB
         = (\<not> checkTheatricalExemption simplized titleA titleB typeA typeB))"
  unfolding checkSeasonMismatch_def Let_def seasonLoop_iff by auto

theorem checkSeasonMismatch_cases_witness:
  "\<not> checkSeasonMismatch simplizedLatin (asc ''X'') (asc ''Y'') None None
   \<and> checkSeasonMismatch simplizedLatin (asc ''X Season 2'') (asc ''X Season 3'') None None
   \<and> \<not> checkSeasonMismatch simplizedLatin (asc ''X OVA'') (asc ''X Season 3'') None None
   \<and> checkSeasonMismatch simplizedLatin (asc ''X Season 2'') (asc ''X'') None None
   \<and> \<not> checkSeasonMismatch simplizedLatin (asc ''X Season 2'') (asc ''X y'')
         (Some [0x5267, 0x573A, 0x7248]) None"
proof -
  have m0: "extractSeasonMarkers simplizedLatin (asc ''X'') None = []" by code_simp
  have m0': "extractSeasonMarkers simplizedLatin (asc ''Y'') None = []" by code_simp
  have m2: "extractSeasonMarkers simplizedLatin (asc ''X Season 2'') None = [asc ''S2'']"
    by code_simp
  have m3: "extractSeasonMarkers simplizedLatin (asc ''X Season 3'') None = [asc ''S3'']"
    by code_simp
  have mo: "extractSeasonMarkers simplizedLatin (asc ''X OVA'') None = [asc ''OVA'']"
    by code_simp
  have m2t: "extractSeasonMarkers simplizedLatin (asc ''X Season 2'')
               (Some [0x5267, 0x573A, 0x7248]) = [asc ''S2'', asc ''MOVIE'']"
    by code_simp
  have my: "extractSeasonMarkers simplizedLatin (asc ''X y'') None = []" by code_simp
  have s: "startsWith (asc ''S2'') (asc ''S'')" "startsWith (asc ''S3'') (asc ''S'')"
    "\<not> startsWith (asc ''OVA'') (asc ''S'')" "asc ''S2'' \<noteq> asc ''S3''"
    by code_simp+
  have e1: "\<not> checkTheatricalExemption simplizedLatin (asc ''X Season 2'') (asc ''X'') None None"
    by code_simp
  have e2: "checkTheatricalExemption simplizedLatin (asc ''X Season 2'') (asc ''X y'')
         (Some [0x5267, 0x573A, 0x7248]) None"
    by code_simp
  show ?thesis
    using checkSeasonMismatch_cases [of simplizedLatin "asc ''X''" None "asc ''Y''" None]
      checkSeasonMismatch_cases [of simplizedLatin "asc ''X Season 2''" None "asc ''X Season 3''" None]
      checkSeasonMismatch_cases [of simplizedLatin "asc ''X OVA''" None "asc ''X Season 3''" None]
      checkSeasonMismatch_cases [of simplizedLatin "asc ''X Season 2''" None "asc ''X''" None]
      checkSeasonMismatch_cases [of simplizedLatin "asc ''X Season 2''"
         "Some [0x5267, 0x573A, 0x7248]" "asc ''X y''" None]
      m0 m0' m2 m3 mo m2t my s e1 e2
    by simp
qed

subsection \<open>The alignment offset\<close>

lemma foldl_selectStep:
  "foldl (selectStep score) (b0, s0) os = (b, s) \<Longrightarrow>
     s0 \<le> s
     \<and> (\<forall>k \<in> set os. \<forall>g. score k = Some g \<longrightarrow> g \<le> s)
     \<and> ((b, s) = (b0, s0) \<or> (b \<in> set os \<and> score b = Some s \<and> s0 < s))"
proof (induction os arbitrary: b0 s0)
  case Nil
  then show ?case by simp
next
  case (Cons x xs)
  obtain b1 s1 where st: "selectStep score (b0, s0) x = (b1, s1)"
    by (cases "selectStep score (b0, s0) x") auto
  have step: "s0 \<le> s1 \<and> (\<forall>g. score x = Some g \<longrightarrow> g \<le> s1)
      \<and> ((b1, s1) = (b0, s0) \<or> (b1 = x \<and> score x = Some s1 \<and> s0 < s1))"
    using st by (auto simp: selectStep_def split: option.splits if_splits)
  from Cons.prems st have "foldl (selectStep score) (b1, s1) xs = (b, s)" by simp
  from Cons.IH [OF this]
  have ih: "s1 \<le> s" "\<forall>k \<in> set xs. \<forall>g. score k = Some g \<longrightarrow> g \<le> s"
    "(b, s) = (b1, s1) \<or> (b \<in> set xs \<and> score b = Some s \<and> s1 < s)"
    by auto
  from step ih(1) have a: "s0 \<le> s" by linarith
  from step ih(1,2) have b: "\<forall>k \<in> set (x # xs). \<forall>g. score k = Some g \<longrightarrow> g \<le> s"
    by fastforce
  from step ih(1,3) have c: "(b, s) = (b0, s0) \<or> (b \<in> set (x # xs) \<and> score b = Some s \<and> s0 < s)"
    by auto
  from a b c show ?case by blast
qed

lemma maxShiftOf_le: "maxShiftOf p q \<le> 15" "0 \<le> maxShiftOf p q"
  by (simp_all add: maxShiftOf_def)

text \<open>
  C8.  The offsets that \<open>findBestAlignmentOffset\<close> scores are the integers from
  \<open>- maxShift\<close> to \<open>maxShift\<close> with \<open>maxShift = min(max(len primary, len secondary), 15)\<close>,
  and its result is one of them, hence in \<open>[-15, 15]\<close>.  The result is 0 when a list is
  empty.  When some offset has a final score above 0.3, the result is an offset with
  the highest final score, and that score is above 0.3; when no offset has a final
  score above 0.3, the result is 0.
\<close>

theorem findBestAlignmentOffset_result:
  "- maxShiftOf primaryLinks secondaryLinks \<le> findBestAlignmentOffset simplized primaryLinks secondaryLinks
   \<and> findBestAlignmentOffset simplized primaryLinks secondaryLinks \<le> maxShiftOf primaryLinks secondaryLinks
   \<and> maxShiftOf primaryLinks secondaryLinks
        = min (max (int (length primaryLinks)) (int (length secondaryLinks))) 15
   \<and> - 15 \<le> findBestAlignmentOffset simplized primaryLinks secondaryLinks
   \<and> findBestAlignmentOffset simplized primaryLinks secondaryLinks \<le> 15
   \<and> (primaryLinks = [] \<or> secondaryLinks = []
        \<longrightarrow> findBestAlignmentOffset simplized primaryLinks secondaryLinks = 0)
   \<and> (primaryLinks \<noteq> [] \<and> secondaryLinks \<noteq> []
        \<and> (\<exists>offset \<in> set [- maxShiftOf primaryLinks secondaryLinks ..
                               maxShiftOf primaryLinks secondaryLinks].
              \<exists>g. offsetScore simplized primaryLinks secondaryLinks
                     (seasonShiftOf simplized primaryLinks secondaryLinks) offset = Some g
                   \<and> 3 / 10 < g)
        \<longrightarrow> (\<exists>f. offsetScore simplized primaryLinks secondaryLinks
                    (seasonShiftOf simplized primaryLinks secondaryLinks)
                    (findBestAlignmentOffset simplized primaryLinks secondaryLinks) = Some f
                 \<and> 3 / 10 < f
                 \<and> (\<forall>offset \<in> set [- maxShiftOf primaryLinks secondaryLinks ..
                                      maxShiftOf primaryLinks secondaryLinks].
                       \<forall>g. offsetScore simplized primaryLinks secondaryLinks
                              (seasonShiftOf simplized primaryLinks secondaryLinks) offset = Some g
                            \<longrightarrow> g \<le> f)))
   \<and> ((\<forall>offset \<in> set [- maxShiftOf primaryLinks secondaryLinks ..
                         maxShiftOf primaryLinks secondaryLinks].
          \<forall>g. offsetScore simplized primaryLinks secondaryLinks
                 (seasonShiftOf simplized primaryLinks secondaryLinks) offset = Some g
               \<longrightarrow> g \<le> 3 / 10)
        \<longrightarrow> findBestAlignmentOffset simplized primaryLinks secondaryLinks = 0)"
proof (cases "primaryLinks = [] \<or> secondaryLinks = []")
  case True
  then have "findBestAlignmentOffset simplized primaryLinks secondaryLinks = 0"
    by (auto simp: findBestAlignmentOffset_def)
  then show ?thesis
    using True maxShiftOf_le [of primaryLinks secondaryLinks] by (auto simp: maxShiftOf_def)
next
  case False
  let ?m = "maxShiftOf primaryLinks secondaryLinks"
  let ?sc = "offsetScore simplized primaryLinks secondaryLinks
               (seasonShiftOf simplized primaryLinks secondaryLinks)"
  let ?r = "findBestAlignmentOffset simplized primaryLinks secondaryLinks"
  obtain b s where fold: "foldl (selectStep ?sc) (0, - 999) [- ?m .. ?m] = (b, s)"
    by (cases "foldl (selectStep ?sc) (0, - 999) [- ?m .. ?m]") auto
  have r: "?r = (if 3 / 10 < s then b else 0)"
    using False fold
    by (simp add: findBestAlignmentOffset_def Let_def)
  from foldl_selectStep [OF fold]
  have inv: "\<forall>k \<in> set [- ?m .. ?m]. \<forall>g. ?sc k = Some g \<longrightarrow> g \<le> s"
    "(b, s) = (0, - 999) \<or> (b \<in> set [- ?m .. ?m] \<and> ?sc b = Some s \<and> - 999 < s)"
    by auto
  have m: "0 \<le> ?m" "?m \<le> 15" using maxShiftOf_le by auto
  have mdef: "?m = min (max (int (length primaryLinks)) (int (length secondaryLinks))) 15"
    by (simp add: maxShiftOf_def)
  have brange: "- ?m \<le> b \<and> b \<le> ?m" using inv(2) m by auto
  have range: "- ?m \<le> ?r \<and> ?r \<le> ?m" using r brange m by auto
  have best: "(\<exists>offset \<in> set [- ?m .. ?m]. \<exists>g. ?sc offset = Some g \<and> 3 / 10 < g)
      \<longrightarrow> (\<exists>f. ?sc ?r = Some f \<and> 3 / 10 < f
        \<and> (\<forall>offset \<in> set [- ?m .. ?m]. \<forall>g. ?sc offset = Some g \<longrightarrow> g \<le> f))"
  proof
    assume "\<exists>offset \<in> set [- ?m .. ?m]. \<exists>g. ?sc offset = Some g \<and> 3 / 10 < g"
    then obtain k g where k: "k \<in> set [- ?m .. ?m]" "?sc k = Some g" "3 / 10 < g" by blast
    from inv(1) k(1,2) have "g \<le> s" by blast
    with k(3) have big: "3 / 10 < s" by linarith
    with r have rb: "?r = b" by simp
    from big inv(2) have "?sc b = Some s" by auto
    with rb big inv(1) show "\<exists>f. ?sc ?r = Some f \<and> 3 / 10 < f
        \<and> (\<forall>offset \<in> set [- ?m .. ?m]. \<forall>g. ?sc offset = Some g \<longrightarrow> g \<le> f)"
      by auto
  qed
  have low: "(\<forall>offset \<in> set [- ?m .. ?m]. \<forall>g. ?sc offset = Some g \<longrightarrow> g \<le> 3 / 10) \<longrightarrow> ?r = 0"
  proof
    assume all: "\<forall>offset \<in> set [- ?m .. ?m]. \<forall>g. ?sc offset = Some g \<longrightarrow> g \<le> 3 / 10"
    from inv(2) have "s \<le> 3 / 10"
    proof
      assume "(b, s) = (0, - 999)"
      then show ?thesis by simp
    next
      assume "b \<in> set [- ?m .. ?m] \<and> ?sc b = Some s \<and> - 999 < s"
      with all show ?thesis by blast
    qed
    with r show "?r = 0" by simp
  qed
  from range m mdef best low False show ?thesis by auto
qed

theorem findBestAlignmentOffset_result_witness:
  "findBestAlignmentOffset simplizedLatin [] [episodeItem (asc ''EP2'') 0] = 0
   \<and> (\<exists>f. offsetScore simplizedLatin
         [episodeItem [0x7B2C, 0x31, 0x96C6] 0, episodeItem [0x7B2C, 0x32, 0x96C6] 1]
         [episodeItem (asc ''EP2'') 0]
         (seasonShiftOf simplizedLatin
            [episodeItem [0x7B2C, 0x31, 0x96C6] 0, episodeItem [0x7B2C, 0x32, 0x96C6] 1]
            [episodeItem (asc ''EP2'') 0])
         (findBestAlignmentOffset simplizedLatin
            [episodeItem [0x7B2C, 0x31, 0x96C6] 0, episodeItem [0x7B2C, 0x32, 0x96C6] 1]
            [episodeItem (asc ''EP2'') 0]) = Some f \<and> 3 / 10 < f)
   \<and> findBestAlignmentOffset simplizedLatin
         [episodeItem (asc ''movie'') 0] [episodeItem (asc ''o1'') 0] = 0"
proof -
  let ?P = "[episodeItem [0x7B2C, 0x31, 0x96C6] 0, episodeItem [0x7B2C, 0x32, 0x96C6] 1]"
  let ?S = "[episodeItem (asc ''EP2'') 0]"
  let ?M = "[episodeItem (asc ''movie'') 0]"
  let ?O = "[episodeItem (asc ''o1'') 0]"
  have one: "1 \<in> set [- maxShiftOf ?P ?S .. maxShiftOf ?P ?S]" by code_simp
  have s1: "offsetScore simplizedLatin ?P ?S (seasonShiftOf simplizedLatin ?P ?S) 1
              = Some (193 / 20)"
    by code_simp
  have high: "\<exists>offset \<in> set [- maxShiftOf ?P ?S .. maxShiftOf ?P ?S].
          \<exists>g. offsetScore simplizedLatin ?P ?S (seasonShiftOf simplizedLatin ?P ?S) offset = Some g
              \<and> 3 / 10 < g"
    using one s1 by (intro bexI [of _ 1] exI [of _ "193 / 20"]) simp_all
  have offs: "[- maxShiftOf ?M ?O .. maxShiftOf ?M ?O] = [- 1, 0, 1]" by code_simp
  have sc: "map (offsetScore simplizedLatin ?M ?O (seasonShiftOf simplizedLatin ?M ?O)) [- 1, 0, 1]
              = [None, Some (- (639 / 140)), None]"
    by code_simp
  have low: "\<forall>offset \<in> set [- maxShiftOf ?M ?O .. maxShiftOf ?M ?O].
          \<forall>g. offsetScore simplizedLatin ?M ?O (seasonShiftOf simplizedLatin ?M ?O) offset = Some g
               \<longrightarrow> g \<le> 3 / 10"
    unfolding offs using sc by simp
  have a: "findBestAlignmentOffset simplizedLatin [] ?S = 0"
    using findBestAlignmentOffset_result [of "[]" ?S simplizedLatin] by simp
  have b: "\<exists>f. offsetScore simplizedLatin ?P ?S (seasonShiftOf simplizedLatin ?P ?S)
                  (findBestAlignmentOffset simplizedLatin ?P ?S) = Some f \<and> 3 / 10 < f"
    using findBestAlignmentOffset_result [of ?P ?S simplizedLatin] high by blast
  have c: "findBestAlignmentOffset simplizedLatin ?M ?O = 0"
    using findBestAlignmentOffset_result [of ?M ?O simplizedLatin] low by blast
  from a b c show ?thesis by blast
qed

subsection \<open>The merge of the sources\<close>

lemma cleanupLoop_filter:
  "n \<le> length cur \<Longrightarrow>
   cleanupLoop consumed n cur
     = filter (\<lambda>a. \<not> (isMerged a \<or> animeId a \<in> set consumed)) (take n cur) @ drop n cur"
proof (induction n arbitrary: cur)
  case 0
  then show ?case by simp
next
  case (Suc n)
  let ?keep = "\<lambda>a. \<not> (isMerged a \<or> animeId a \<in> set consumed)"
  from Suc.prems have n: "n < length cur" by simp
  have tk: "take (Suc n) cur = take n cur @ [cur ! n]"
    using n by (rule take_Suc_conv_app_nth)
  have dr: "drop n cur = cur ! n # drop (Suc n) cur"
    using n by (simp add: Cons_nth_drop_Suc)
  show ?case
  proof (cases "?keep (cur ! n)")
    case True
    have "cleanupLoop consumed (Suc n) cur = cleanupLoop consumed n cur"
      using True by (simp add: Let_def)
    also have "\<dots> = filter ?keep (take n cur) @ drop n cur"
      using n by (intro Suc.IH) simp
    also have "\<dots> = filter ?keep (take n cur) @ cur ! n # drop (Suc n) cur"
      by (simp only: dr [symmetric])
    also have "\<dots> = filter ?keep (take (Suc n) cur) @ drop (Suc n) cur"
      unfolding tk using True by simp
    finally show ?thesis .
  next
    case False
    let ?cur' = "take n cur @ drop (Suc n) cur"
    have len: "n \<le> length ?cur'" using n by simp
    have t': "take n ?cur' = take n cur" using n by simp
    have d': "drop n ?cur' = drop (Suc n) cur" using n by simp
    have "cleanupLoop consumed (Suc n) cur = cleanupLoop consumed n ?cur'"
      using False by (simp add: Let_def)
    also have "\<dots> = filter ?keep (take n ?cur') @ drop n ?cur'"
      using len by (rule Suc.IH)
    also have "\<dots> = filter ?keep (take n cur) @ drop (Suc n) cur"
      by (simp only: t' d')
    also have "\<dots> = filter ?keep (take (Suc n) cur) @ drop (Suc n) cur"
      unfolding tk using False by simp
    finally show ?thesis .
  qed
qed

lemma mergeAll_no_groups:
  "mergeSourcePairs g = [] \<Longrightarrow> globalConsumedIds (mergeAll simplized dateOf g cur) = []"
  by (simp add: mergeAll_def)

lemma applyMergeLogic_filter:
  "mergeSourcePairs g \<noteq> [] \<Longrightarrow>
   applyMergeLogic simplized dateOf g cur
     = filter (\<lambda>a. \<not> (isMerged a \<or> animeId a \<in> set (globalConsumedIds (mergeAll simplized dateOf g cur))))
         (newMergedAnimes (mergeAll simplized dateOf g cur) @ cur)"
  by (simp add: applyMergeLogic_def Let_def cleanupLoop_filter)

text \<open>
  C1.  When \<open>applyMergeLogic\<close> returns, no entry of \<open>curAnimes\<close> has an id of the set
  \<open>globalConsumedIds\<close>, the ids that the accepted merges added as matched secondary or
  as primary; so every original entry with such an id is gone from the list.  The
  cleanup pass leaves exactly the entries, merged ones first, that are not flagged
  \<open>_isMerged\<close> and whose id is not in that set.
\<close>

theorem applyMergeLogic_consumed_absent:
  "(\<forall>a \<in> set (applyMergeLogic simplized dateOf g cur).
       animeId a \<notin> set (globalConsumedIds (mergeAll simplized dateOf g cur)))
   \<and> (\<forall>x \<in> set cur.
         animeId x \<in> set (globalConsumedIds (mergeAll simplized dateOf g cur))
         \<longrightarrow> x \<notin> set (applyMergeLogic simplized dateOf g cur))
   \<and> (mergeSourcePairs g \<noteq> []
        \<longrightarrow> applyMergeLogic simplized dateOf g cur
            = filter (\<lambda>a. \<not> isMerged a
                           \<and> animeId a \<notin> set (globalConsumedIds (mergeAll simplized dateOf g cur)))
                (newMergedAnimes (mergeAll simplized dateOf g cur) @ cur))"
proof (cases "mergeSourcePairs g = []")
  case True
  then show ?thesis by (simp add: mergeAll_no_groups)
next
  case False
  from applyMergeLogic_filter [OF False, of simplized dateOf cur]
  show ?thesis using False by auto
qed

lemma scenario_mergeAll:
  "mergeAll simplizedLatin noDate g3 cur3
     = \<lparr> groupConsumedIds = [IdNum 3, IdNum 1], globalConsumedIds = [IdNum 3, IdNum 1],
         generatedSignatures = [asc ''1|3''], newMergedAnimes = [mergedEntry],
         addedAnimes = [mergedEntry] \<rparr>"
  by code_simp

lemma scenario_cleanup:
  "filter (\<lambda>a. \<not> (isMerged a \<or> animeId a \<in> set [IdNum 3, IdNum 1])) ([mergedEntry] @ cur3)
     = [mergedEntry, cur3 ! 1]"
  by code_simp

lemma scenario_ids: "animeId (cur3 ! 0) = IdNum 1" "animeId (cur3 ! 1) = IdNum 2"
    "animeId (cur3 ! 2) = IdNum 3" "cur3 ! 0 \<in> set cur3" "cur3 ! 2 \<in> set cur3"
  by (simp_all add: cur3_def entry_def)

theorem applyMergeLogic_consumed_absent_witness:
  "globalConsumedIds (mergeAll simplizedLatin noDate g3 cur3) = [IdNum 3, IdNum 1]
   \<and> cur3 ! 0 \<notin> set (applyMergeLogic simplizedLatin noDate g3 cur3)
   \<and> cur3 ! 2 \<notin> set (applyMergeLogic simplizedLatin noDate g3 cur3)"
proof -
  have c: "globalConsumedIds (mergeAll simplizedLatin noDate g3 cur3) = [IdNum 3, IdNum 1]"
    by (simp add: scenario_mergeAll)
  have "animeId (cur3 ! 0) \<in> set (globalConsumedIds (mergeAll simplizedLatin noDate g3 cur3))"
       "animeId (cur3 ! 2) \<in> set (globalConsumedIds (mergeAll simplizedLatin noDate g3 cur3))"
    by (simp_all add: c scenario_ids)
  then show ?thesis
    using applyMergeLogic_consumed_absent [of simplizedLatin noDate g3 cur3] c scenario_ids(4,5)
    by blast
qed

text \<open>
  C2 against the code.  The new id is assigned, and the links are fused in place,
  before \<open>mergedCount\<close> and \<open>isMergeRatioValid\<close> are looked at, and nothing is undone
  when the check fails.  In the run above the match of source B is rejected (1 of 6
  episodes, below 18 percent): \<open>hasMergedAny\<close> stays false and nothing is consumed, but
  the derived entry has the id made from the ids 1 and 2, and its first link already
  carries \<open>$$$B:s1\<close>.  The match of source C is then accepted on top of that: the entry
  that \<open>applyMergeLogic\<close> puts out has the id made from that id and 3, its first link
  is \<open>A:p1$$$B:s1$$$C:c1\<close>, and the entry of source B is still in the list.
\<close>

theorem mergeAttempt_rejected_keeps_changes:
  "mergeAttempt simplizedLatin g3 (asc ''A&B&C'') (asc ''A'') (asc ''B'') (cur3 ! 1) [urlLink ''s1'']
     (\<lparr> derivedAnime = cur3 ! 0, actualMergedSources = [], contentSignatureParts = [IdNum 1],
         hasMergedAny = False \<rparr>,
      \<lparr> groupConsumedIds = [], globalConsumedIds = [], generatedSignatures = [],
         newMergedAnimes = [], addedAnimes = [] \<rparr>)
   = (\<lparr> derivedAnime = \<lparr> animeId = IdNum 1396159457, bangumiId = asc ''1396159457'',
          animeTitle = asc ''X'', source = asc ''A'', startDate = None, typeDescription = None,
          episodeCount = None,
          links = Some (map urlLink [''A:p1$$$B:s1'', ''p2'', ''p3'', ''p4'', ''p5'', ''p6'']),
          isMerged = False \<rparr>,
        actualMergedSources = [], contentSignatureParts = [IdNum 1], hasMergedAny = False \<rparr>,
      \<lparr> groupConsumedIds = [], globalConsumedIds = [], generatedSignatures = [],
         newMergedAnimes = [], addedAnimes = [] \<rparr>)
   \<and> applyMergeLogic simplizedLatin noDate g3 cur3 = [mergedEntry, cur3 ! 1]
   \<and> generateSafeMergedId (IdNum 1) (IdNum 3) (asc ''A&B&C'') = 1491344224"
proof -
  have a: "mergeAttempt simplizedLatin g3 (asc ''A&B&C'') (asc ''A'') (asc ''B'') (cur3 ! 1) [urlLink ''s1'']
     (\<lparr> derivedAnime = cur3 ! 0, actualMergedSources = [], contentSignatureParts = [IdNum 1],
         hasMergedAny = False \<rparr>,
      \<lparr> groupConsumedIds = [], globalConsumedIds = [], generatedSignatures = [],
         newMergedAnimes = [], addedAnimes = [] \<rparr>)
   = (\<lparr> derivedAnime = \<lparr> animeId = IdNum 1396159457, bangumiId = asc ''1396159457'',
          animeTitle = asc ''X'', source = asc ''A'', startDate = None, typeDescription = None,
          episodeCount = None,
          links = Some (map urlLink [''A:p1$$$B:s1'', ''p2'', ''p3'', ''p4'', ''p5'', ''p6'']),
          isMerged = False \<rparr>,
        actualMergedSources = [], contentSignatureParts = [IdNum 1], hasMergedAny = False \<rparr>,
      \<lparr> groupConsumedIds = [], globalConsumedIds = [], generatedSignatures = [],
         newMergedAnimes = [], addedAnimes = [] \<rparr>)"
    by code_simp
  have g: "mergeSourcePairs g3 \<noteq> []" by (simp add: g3_def)
  have b: "applyMergeLogic simplizedLatin noDate g3 cur3 = [mergedEntry, cur3 ! 1]"
    unfolding applyMergeLogic_filter [OF g] scenario_mergeAll
    using scenario_cleanup by simp
  have c: "generateSafeMergedId (IdNum 1) (IdNum 3) (asc ''A&B&C'') = 1491344224"
    by code_simp
  from a b c show ?thesis by blast
qed

end
